theory Spec2Isabelle
  imports Main
begin

chapter \<open>HomeWizard v2 client: device adapters and pairing\<close>

text \<open>
  A shallow embedding of the Go packages \<^verbatim>\<open>device\<close> (meter adapters built on a
  freshness cache and a streaming connection) and \<^verbatim>\<open>pairing\<close> (the button-press
  token handshake, for one device and for a batch of devices).

  Conventions of the embedding:
  \<^item> A Go \<^verbatim>\<open>float64\<close> is a value of a type \<open>'f\<close> of which only the operations the
    code uses are required: the zero value (sort \<open>zero\<close>), addition (\<open>plus\<close>) and
    negation (\<open>uminus\<close>). No law of arithmetic is assumed, so every statement holds
    for IEEE doubles whatever their rounding (and for \<open>-0\<close> distinct from \<open>0\<close>).
  \<^item> A Go pair \<^verbatim>\<open>(value, error)\<close> is a sum \<open>error + value\<close>, \<open>Inl\<close> the error; a
    Go \<^verbatim>\<open>error\<close> result alone is an \<open>error option\<close>, \<open>None\<close> being \<^verbatim>\<open>nil\<close>.
  \<^item> The clock is explicit: functions that read the time take \<open>now\<close>.
  \<^item> Calls that leave the process (a message on the connection, an HTTP request,
    a sleep, the progress callback) are recorded, in order, in a list of events
    returned next to the result.
\<close>

section \<open>Package device: data\<close>

subsection \<open>Measurement records\<close>

record 'f CommonMeasurement =
  PowerW :: 'f
  PowerL1W :: 'f
  PowerL2W :: 'f
  PowerL3W :: 'f
  VoltageV :: 'f
  VoltageL1V :: 'f
  VoltageL2V :: 'f
  VoltageL3V :: 'f
  CurrentA :: 'f
  CurrentL1A :: 'f
  CurrentL2A :: 'f
  CurrentL3A :: 'f

text \<open>Go embeds \<^verbatim>\<open>CommonMeasurement\<close> in both meter records; the record extension
  keeps the promoted field names.\<close>

record 'f P1Measurement = "'f CommonMeasurement" +
  EnergyImportT1kWh :: 'f
  EnergyImportT2kWh :: 'f
  EnergyExportT1kWh :: 'f
  EnergyExportT2kWh :: 'f

record 'f KWHMeasurement = "'f CommonMeasurement" +
  EnergyImportkWh :: 'f
  EnergyExportkWh :: 'f

text \<open>\<^verbatim>\<open>func (m P1Measurement) GetCommon()\<close> and \<^verbatim>\<open>func (m KWHMeasurement) GetCommon()\<close>
  return the embedded struct.\<close>

definition P1_GetCommon :: "'f P1Measurement \<Rightarrow> 'f CommonMeasurement" where
  "P1_GetCommon m = CommonMeasurement.truncate m"

definition KWH_GetCommon :: "'f KWHMeasurement \<Rightarrow> 'f CommonMeasurement" where
  "KWH_GetCommon m = CommonMeasurement.truncate m"

text \<open>The declaration of \<^verbatim>\<open>BatteriesData\<close> is not among the sources; these are the
  fields the code reads (\<^verbatim>\<open>Mode\<close>, \<^verbatim>\<open>PowerW\<close>, \<^verbatim>\<open>MaxConsumptionW\<close>, \<^verbatim>\<open>MaxProductionW\<close>).
  Its \<^verbatim>\<open>PowerW\<close> is named \<open>BatPowerW\<close> here, apart from the meters' field.\<close>

record 'f BatteriesData =
  Mode :: string
  BatPowerW :: 'f
  MaxConsumptionW :: 'f
  MaxProductionW :: 'f

subsection \<open>Errors\<close>

datatype error =
    ErrTimeout                \<comment> \<open>\<^verbatim>\<open>api.ErrTimeout\<close>\<close>
  | ErrOutdated               \<comment> \<open>the cache's stale condition\<close>
  | ErrNotConnected           \<comment> \<open>\<^verbatim>\<open>Send\<close> while the link is down\<close>
  | ErrExternal string        \<comment> \<open>an error of a collaborator (JSON, HTTP, transport)\<close>
  | ErrWrap string error      \<comment> \<open>\<^verbatim>\<open>fmt.Errorf("...: %w", err)\<close>\<close>

subsection \<open>The freshness cache\<close>

text \<open>Modelled from the spec: \<^verbatim>\<open>util.Monitor[T]\<close> (package \<^verbatim>\<open>evcc/util\<close>, not among
  the sources). The cache owns the last written value with the time of the write and a
  fixed max-age. \<^verbatim>\<open>Set\<close> stores the value with the current time and always succeeds;
  \<^verbatim>\<open>Get\<close> returns the value only if the time elapsed since the write is within the
  max-age and fails with the stale condition otherwise, an empty cache being stale.\<close>

record 'a Monitor =
  slot :: "('a \<times> int) option"
  maxAge :: int

definition NewMonitor :: "int \<Rightarrow> 'a Monitor" where
  "NewMonitor timeout = \<lparr>slot = None, maxAge = timeout\<rparr>"

definition Monitor_Set :: "int \<Rightarrow> 'a \<Rightarrow> 'a Monitor \<Rightarrow> 'a Monitor" where
  "Monitor_Set now v m = m\<lparr>slot := Some (v, now)\<rparr>"

definition Monitor_Get :: "int \<Rightarrow> 'a Monitor \<Rightarrow> error + 'a" where
  "Monitor_Get now m =
     (case slot m of
        None \<Rightarrow> Inl ErrOutdated
      | Some (v, t) \<Rightarrow> if now - t \<le> maxAge m then Inr v else Inl ErrOutdated)"

subsection \<open>The streaming connection\<close>

datatype LinkState = Disconnected | Connecting | Connected | Reconnecting

text \<open>The in-band control message \<^verbatim>\<open>{"type": ..., "data": {...}}\<close>.\<close>

record WsMessage =
  msg_type :: string
  msg_data :: "(string \<times> string) list"

text \<open>Modelled from the spec: \<^verbatim>\<open>Connection.Send\<close> (the connection's source file is not
  among the sources). \<^verbatim>\<open>Send\<close> writes one outbound message if the link is
  \<open>Connected\<close> and fails with the not-connected condition otherwise; it never queues.
  \<open>transport_write\<close> is the outcome of the transport write when the link is up.\<close>

record Connection =
  link :: LinkState
  transport_write :: "WsMessage \<Rightarrow> error option"

definition Connection_Send :: "Connection \<Rightarrow> WsMessage \<Rightarrow> error option" where
  "Connection_Send c m = (if link c = Connected then transport_write c m else Some ErrNotConnected)"

subsection \<open>Devices\<close>

text \<open>\<^verbatim>\<open>deviceBase\<close> with the fields the modelled methods read, and
  \<^verbatim>\<open>baseMeterDevice[T]\<close>, which adds the measurement cache. The interface method
  \<^verbatim>\<open>GetCommon\<close> of the type parameter is passed to the generic methods.\<close>

record 'm baseMeterDevice =
  dev_host :: string
  dev_token :: string
  conn :: Connection
  measurement :: "'m Monitor"

record 'f P1MeterDevice = "'f P1Measurement baseMeterDevice" +
  batteriesData :: "'f BatteriesData Monitor"

type_synonym 'f KWHMeterDevice = "'f KWHMeasurement baseMeterDevice"

section \<open>Package device: operations\<close>

subsection \<open>Generic meter methods\<close>

definition GetMeasurement :: "int \<Rightarrow> ('m, 'z) baseMeterDevice_scheme \<Rightarrow> error + 'm" where
  "GetMeasurement now d =
     (case Monitor_Get now (measurement d) of
        Inl err \<Rightarrow> Inl ErrTimeout
      | Inr m \<Rightarrow> Inr m)"

text \<open>\<^verbatim>\<open>json.Unmarshal\<close> into the measurement type is the parameter \<open>decode\<close>.\<close>

definition handleMessage ::
  "(string \<Rightarrow> error + 'm) \<Rightarrow> int \<Rightarrow> string \<Rightarrow> string \<Rightarrow> ('m, 'z) baseMeterDevice_scheme
     \<Rightarrow> error option \<times> ('m, 'z) baseMeterDevice_scheme" where
  "handleMessage decode now msgType data d =
     (if msgType = ''measurement'' then
        (case decode data of
           Inl err \<Rightarrow> (Some (ErrWrap ''unmarshal meter measurement'' err), d)
         | Inr m \<Rightarrow> (None, d\<lparr>measurement := Monitor_Set now m (measurement d)\<rparr>))
      else if msgType = ''device'' \<or> msgType = ''system'' then (None, d)
      else (None, d))"

definition GetPower ::
  "('m \<Rightarrow> 'f CommonMeasurement) \<Rightarrow> int \<Rightarrow> ('m, 'z) baseMeterDevice_scheme \<Rightarrow> bool
     \<Rightarrow> error + ('f::uminus)" where
  "GetPower getCommon now d invertForPV =
     (case GetMeasurement now d of
        Inl err \<Rightarrow> Inl err
      | Inr m \<Rightarrow>
          (let common = getCommon m;
               power = PowerW common;
               power = (if invertForPV then - power else power)
           in Inr power))"

definition GetPhasePowers ::
  "('m \<Rightarrow> 'f CommonMeasurement) \<Rightarrow> int \<Rightarrow> ('m, 'z) baseMeterDevice_scheme \<Rightarrow> int \<Rightarrow> bool
     \<Rightarrow> error + ('f::{zero,uminus}) \<times> 'f \<times> 'f" where
  "GetPhasePowers getCommon now d phases invertForPV =
     (case GetMeasurement now d of
        Inl err \<Rightarrow> Inl err
      | Inr m \<Rightarrow>
          (let common = getCommon m;
               (p1, p2, p3) =
                 (if phases = 1 then (PowerW common, 0, 0)
                  else (PowerL1W common, PowerL2W common, PowerL3W common));
               (p1, p2, p3) = (if invertForPV then (- p1, - p2, - p3) else (p1, p2, p3))
           in Inr (p1, p2, p3)))"

definition GetPhaseCurrents ::
  "('m \<Rightarrow> 'f CommonMeasurement) \<Rightarrow> int \<Rightarrow> ('m, 'z) baseMeterDevice_scheme \<Rightarrow> int
     \<Rightarrow> error + ('f::zero) \<times> 'f \<times> 'f" where
  "GetPhaseCurrents getCommon now d phases =
     (case GetMeasurement now d of
        Inl err \<Rightarrow> Inl err
      | Inr m \<Rightarrow>
          (let common = getCommon m
           in if phases = 1 then Inr (CurrentA common, 0, 0)
              else Inr (CurrentL1A common, CurrentL2A common, CurrentL3A common)))"

definition GetPhaseVoltages ::
  "('m \<Rightarrow> 'f CommonMeasurement) \<Rightarrow> int \<Rightarrow> ('m, 'z) baseMeterDevice_scheme \<Rightarrow> int
     \<Rightarrow> error + ('f::zero) \<times> 'f \<times> 'f" where
  "GetPhaseVoltages getCommon now d phases =
     (case GetMeasurement now d of
        Inl err \<Rightarrow> Inl err
      | Inr m \<Rightarrow>
          (let common = getCommon m
           in if phases = 1 then Inr (VoltageV common, 0, 0)
              else Inr (VoltageL1V common, VoltageL2V common, VoltageL3V common)))"

subsection \<open>The energy meter (kWh)\<close>

definition KWH_GetTotalEnergy :: "int \<Rightarrow> 'f KWHMeterDevice \<Rightarrow> bool \<Rightarrow> error + 'f" where
  "KWH_GetTotalEnergy now d usePVExport =
     (case GetMeasurement now d of
        Inl err \<Rightarrow> Inl err
      | Inr m \<Rightarrow> if usePVExport then Inr (EnergyExportkWh m) else Inr (EnergyImportkWh m))"

subsection \<open>The grid meter (P1)\<close>

text \<open>\<open>decodeM\<close> and \<open>decodeB\<close> are \<^verbatim>\<open>json.Unmarshal\<close> into a measurement and into
  battery data.\<close>

definition handleP1Message ::
  "(string \<Rightarrow> error + 'f P1Measurement) \<Rightarrow> (string \<Rightarrow> error + 'f BatteriesData) \<Rightarrow> int
     \<Rightarrow> string \<Rightarrow> string \<Rightarrow> 'f P1MeterDevice \<Rightarrow> error option \<times> 'f P1MeterDevice" where
  "handleP1Message decodeM decodeB now msgType data d =
     (if msgType = ''batteries'' then
        (case decodeB data of
           Inl err \<Rightarrow> (Some (ErrWrap ''unmarshal batteries data'' err), d)
         | Inr b \<Rightarrow> (None, d\<lparr>batteriesData := Monitor_Set now b (batteriesData d)\<rparr>))
      else handleMessage decodeM now msgType data d)"

definition P1_GetPower :: "int \<Rightarrow> 'f P1MeterDevice \<Rightarrow> error + 'f" where
  "P1_GetPower now d =
     (case GetMeasurement now d of
        Inl err \<Rightarrow> Inl err
      | Inr m \<Rightarrow> Inr (PowerW (P1_GetCommon m)))"

definition P1_GetPhasePowers ::
  "int \<Rightarrow> 'f P1MeterDevice \<Rightarrow> int \<Rightarrow> error + ('f::zero) \<times> 'f \<times> 'f" where
  "P1_GetPhasePowers now d phases =
     (case GetMeasurement now d of
        Inl err \<Rightarrow> Inl err
      | Inr m \<Rightarrow>
          (let common = P1_GetCommon m
           in if phases = 1 then Inr (PowerW common, 0, 0)
              else Inr (PowerL1W common, PowerL2W common, PowerL3W common)))"

definition P1_GetTotalEnergy :: "int \<Rightarrow> 'f P1MeterDevice \<Rightarrow> error + ('f::plus)" where
  "P1_GetTotalEnergy now d =
     (case GetMeasurement now d of
        Inl err \<Rightarrow> Inl err
      | Inr m \<Rightarrow> Inr (EnergyImportT1kWh m + EnergyImportT2kWh m))"

definition GetBatteryPowerLimits :: "int \<Rightarrow> 'f P1MeterDevice \<Rightarrow> error + 'f \<times> 'f" where
  "GetBatteryPowerLimits now d =
     (case Monitor_Get now (batteriesData d) of
        Inl err \<Rightarrow> Inl ErrTimeout
      | Inr b \<Rightarrow> Inr (MaxConsumptionW b, MaxProductionW b))"

subsection \<open>Battery control\<close>

text \<open>The HTTP collaborator (\<^verbatim>\<open>request.New\<close>, \<^verbatim>\<open>request.JSONEncoding\<close> and the
  helper's \<^verbatim>\<open>DoJSON\<close> of package \<^verbatim>\<open>evcc/util/request\<close>, not among the sources) is
  taken as a parameter: \<open>url_error\<close> is the error of building a request for a URL
  (\<open>None\<close> when the URL parses), \<open>JSONEncoding\<close> the initial headers, and \<open>DoJSON\<close>
  performs the request and decodes the answer, failing on a transport error, on a
  status outside 2xx and on an answer that does not decode. The JSON body
  \<^verbatim>\<open>{"mode": mode}\<close> is kept as its list of members.\<close>

record HttpRequest =
  req_method :: string
  req_uri :: string
  req_body :: "(string \<times> string) list"
  req_header :: "(string \<times> string) list"

record 'f HttpEnv =
  url_error :: "string \<Rightarrow> error option"
  JSONEncoding :: "(string \<times> string) list"
  DoJSON :: "HttpRequest \<Rightarrow> error + 'f BatteriesData"

definition request_New ::
  "('f, 'z) HttpEnv_scheme \<Rightarrow> string \<Rightarrow> string \<Rightarrow> (string \<times> string) list
     \<Rightarrow> (string \<times> string) list \<Rightarrow> error + HttpRequest" where
  "request_New env method uri body headers =
     (case url_error env uri of
        Some err \<Rightarrow> Inl err
      | None \<Rightarrow> Inr \<lparr>req_method = method, req_uri = uri, req_body = body,
                      req_header = headers\<rparr>)"

text \<open>\<^verbatim>\<open>req.Header.Set(key, value)\<close> replaces what the key held.\<close>

definition Header_Set :: "string \<Rightarrow> string \<Rightarrow> HttpRequest \<Rightarrow> HttpRequest" where
  "Header_Set k v req =
     req\<lparr>req_header := filter (\<lambda>(k', v'). k' \<noteq> k) (req_header req) @ [(k, v)]\<rparr>"

text \<open>What a call does outside the process, in order: a message handed to the
  connection's \<^verbatim>\<open>Send\<close>, a sleep (in milliseconds), an HTTP request performed.\<close>

datatype dev_event = ConnSend WsMessage | Sleep int | HttpDo HttpRequest

definition setBatteryModeHTTP ::
  "('f, 'z) HttpEnv_scheme \<Rightarrow> 'f P1MeterDevice \<Rightarrow> string \<Rightarrow> error option \<times> dev_event list" where
  "setBatteryModeHTTP env d mode =
     (let uri = ''https://'' @ dev_host d @ ''/api/batteries'';
          reqBody = [(''mode'', mode)]
      in case request_New env ''PUT'' uri reqBody (JSONEncoding env) of
           Inl err \<Rightarrow> (Some err, [])
         | Inr req \<Rightarrow>
             (let req = Header_Set ''Authorization'' (''Bearer '' @ dev_token d) req;
                  req = Header_Set ''X-Api-Version'' ''2'' req;
                  req = Header_Set ''Content-Type'' ''application/json'' req;
                  req = Header_Set ''Accept'' ''application/json'' req
              in case DoJSON env req of
                   Inl err \<Rightarrow> (Some err, [HttpDo req])
                 | Inr res \<Rightarrow> (None, [HttpDo req])))"

definition SetBatteryMode ::
  "('f, 'z) HttpEnv_scheme \<Rightarrow> 'f P1MeterDevice \<Rightarrow> string \<Rightarrow> error option \<times> dev_event list" where
  "SetBatteryMode env d mode =
     (let wsMsg = \<lparr>msg_type = ''batteries'', msg_data = [(''mode'', mode)]\<rparr>
      in case Connection_Send (conn d) wsMsg of
           Some err \<Rightarrow>
             (let (r, evs) = setBatteryModeHTTP env d mode in (r, ConnSend wsMsg # evs))
         | None \<Rightarrow> (None, [ConnSend wsMsg, Sleep 100]))"

section \<open>Package pairing: a single device\<close>

subsection \<open>The name rule\<close>

text \<open>The pattern \<^verbatim>\<open>^[a-zA-Z0-9\-_/\\# ]{1,40}$\<close>: one character class, repeated between 1
  and 40 times, anchored at both ends (in Go's syntax \<^verbatim>\<open>$\<close> without the multi-line flag
  matches at the end of the text only). A Go string is a sequence of bytes, as a HOL
  \<open>string\<close> is; every member of the class is an ASCII character, so a byte outside
  ASCII never matches.\<close>

datatype class_item = Range char char | Single char

definition namePattern_class :: "class_item list" where
  "namePattern_class =
     [Range CHR ''a'' CHR ''z'', Range CHR ''A'' CHR ''Z'', Range CHR ''0'' CHR ''9'',
      Single CHR ''-'', Single CHR ''_'', Single CHR ''/'', Single (CHR 0x5C),
      Single CHR ''#'', Single CHR '' '']"

fun class_item_matches :: "class_item \<Rightarrow> char \<Rightarrow> bool" where
  "class_item_matches (Range lo hi) c =
     ((of_char lo :: nat) \<le> of_char c \<and> (of_char c :: nat) \<le> of_char hi)"
| "class_item_matches (Single x) c = (c = x)"

definition class_matches :: "class_item list \<Rightarrow> char \<Rightarrow> bool" where
  "class_matches items c = list_ex (\<lambda>it. class_item_matches it c) items"

text \<open>\<open>match_repeat cls lo hi s\<close>: the whole of \<open>s\<close> is between \<open>lo\<close> and \<open>hi\<close>
  characters of the class.\<close>

fun match_repeat :: "(char \<Rightarrow> bool) \<Rightarrow> nat \<Rightarrow> nat \<Rightarrow> string \<Rightarrow> bool" where
  "match_repeat cls lo hi [] = (lo = 0)"
| "match_repeat cls lo hi (c # cs) = (0 < hi \<and> cls c \<and> match_repeat cls (lo - 1) (hi - 1) cs)"

definition namePattern_MatchString :: "string \<Rightarrow> bool" where
  "namePattern_MatchString name = match_repeat (class_matches namePattern_class) 1 40 name"

text \<open>The rule in the specification's words: 1 to 40 characters drawn from letters,
  digits, \<^verbatim>\<open>- _ / \ #\<close> and space.\<close>

definition letters :: string where
  "letters = ''abcdefghijklmnopqrstuvwxyzABCDEFGHIJKLMNOPQRSTUVWXYZ''"

definition digits :: string where
  "digits = ''0123456789''"

definition punctuation :: string where
  "punctuation = [CHR ''-'', CHR ''_'', CHR ''/'', CHR 0x5C, CHR ''#'', CHR '' '']"

definition valid_name :: "string \<Rightarrow> bool" where
  "valid_name name \<longleftrightarrow>
     1 \<le> length name \<and> length name \<le> 40 \<and>
     list_all (\<lambda>c. c \<in> set letters \<or> c \<in> set digits \<or> c \<in> set punctuation) name"

subsection \<open>Errors and events\<close>

datatype pairing_error =
    InvalidName                \<comment> \<open>\<^verbatim>\<open>"invalid name: must be 1-40 characters ..."\<close>\<close>
  | NoDevicesFound             \<comment> \<open>\<^verbatim>\<open>"no HomeWizard devices found on network"\<close>\<close>
  | Timeout                    \<comment> \<open>\<^verbatim>\<open>"timeout after 3 minutes"\<close>\<close>
  | HttpError int string       \<comment> \<open>\<^verbatim>\<open>&httpError{StatusCode, Body}\<close>\<close>
  | ClientError string         \<comment> \<open>an error of \<^verbatim>\<open>net/http\<close> or \<^verbatim>\<open>encoding/json\<close>\<close>
  | Fatal pairing_error        \<comment> \<open>\<^verbatim>\<open>fmt.Errorf("error: %v", err)\<close>\<close>
  | PairingFailed pairing_error  \<comment> \<open>\<^verbatim>\<open>fmt.Errorf("pairing failed: %w", err)\<close>\<close>

text \<open>What the device answers to one token request: no answer at all (\<^verbatim>\<open>client.Do\<close>
  fails), or a status code with a body.\<close>

datatype http_result = NoResponse string | Response int string

text \<open>The two parts of the standard library the request depends on are parameters:
  \<open>new_request_error\<close> is the error of \<^verbatim>\<open>http.NewRequest\<close> for a URL (\<open>None\<close> when
  the URL parses) and \<open>decodeToken\<close> reads the \<^verbatim>\<open>token\<close> member of a JSON body.\<close>

record PairEnv =
  new_request_error :: "string \<Rightarrow> string option"
  decodeToken :: "string \<Rightarrow> string + string"

text \<open>What a pairing run does outside its own variables, in order: creating the
  deadline context (seconds), creating the ticker (seconds), calling the progress
  callback, sending a token request, running network discovery (seconds).\<close>

datatype pair_event =
    WithTimeout int
  | NewTicker int
  | OnAttempt int
  | HttpPost HttpRequest
  | Discover int

subsection \<open>The token request\<close>

definition requestToken ::
  "PairEnv \<Rightarrow> string \<Rightarrow> string \<Rightarrow> http_result \<Rightarrow> (pairing_error + string) \<times> pair_event list" where
  "requestToken env uri name resp =
     (let endpoint = uri @ ''/api/user'';
          reqBody = [(''name'', ''local/'' @ name)]
      in case new_request_error env endpoint of
           Some e \<Rightarrow> (Inl (ClientError e), [])
         | None \<Rightarrow>
             (let req = \<lparr>req_method = ''POST'', req_uri = endpoint, req_body = reqBody,
                         req_header = []\<rparr>;
                  req = Header_Set ''Content-Type'' ''application/json'' req;
                  req = Header_Set ''X-Api-Version'' ''2'' req
              in case resp of
                   NoResponse e \<Rightarrow> (Inl (ClientError e), [HttpPost req])
                 | Response StatusCode body \<Rightarrow>
                     if StatusCode \<noteq> 200 then (Inl (HttpError StatusCode body), [HttpPost req])
                     else (case decodeToken env body of
                             Inl e \<Rightarrow> (Inl (ClientError e), [HttpPost req])
                           | Inr Token \<Rightarrow> (Inr Token, [HttpPost req]))))"

fun isButtonPressRequired :: "pairing_error \<Rightarrow> bool" where
  "isButtonPressRequired (HttpError StatusCode body) = (StatusCode = 403)"
| "isButtonPressRequired err = False"

subsection \<open>The polling loop\<close>

text \<open>Each iteration of the loop of \<^verbatim>\<open>pairDeviceWithContext\<close> blocks in a
  \<^verbatim>\<open>select\<close> on the ticker's channel and on the context's done channel. Which of the
  two is received is decided by the Go runtime (the ticker's period, the context's
  deadline, and chance when both are ready), so the sequence of receipts is the input
  of the model: \<open>TickerC r\<close> is a tick, \<open>r\<close> being what the device answers to the
  request of that iteration, and \<open>CtxDone\<close> is the done signal.\<close>

datatype select_event = TickerC http_result | CtxDone

text \<open>One iteration: the new value of \<^verbatim>\<open>attempt\<close>, the values returned (\<open>None\<close> when
  the loop goes on) and the events of the iteration.\<close>

definition pairIteration ::
  "PairEnv \<Rightarrow> string \<Rightarrow> string \<Rightarrow> int \<Rightarrow> select_event
     \<Rightarrow> int \<times> (pairing_error + string) option \<times> pair_event list" where
  "pairIteration env uri name attempt ev =
     (case ev of
        TickerC resp \<Rightarrow>
          (let attempt = attempt + 1;
               (r, net) = requestToken env uri name resp
           in case r of
                Inr token \<Rightarrow> (attempt, Some (Inr token), OnAttempt attempt # net)
              | Inl err \<Rightarrow>
                  if \<not> isButtonPressRequired err
                  then (attempt, Some (Inl (Fatal err)), OnAttempt attempt # net)
                  else (attempt, None, OnAttempt attempt # net))
      | CtxDone \<Rightarrow> (attempt, Some (Inl Timeout), []))"

text \<open>The loop over a sequence of receipts. With no receipt left the loop is still
  blocked in its \<^verbatim>\<open>select\<close>: it has not returned, which is the result \<open>None\<close>.\<close>

fun pairLoop ::
  "PairEnv \<Rightarrow> string \<Rightarrow> string \<Rightarrow> int \<Rightarrow> select_event list
     \<Rightarrow> (pairing_error + string) option \<times> pair_event list" where
  "pairLoop env uri name attempt [] = (None, [])"
| "pairLoop env uri name attempt (ev # evs) =
     (case pairIteration env uri name attempt ev of
        (attempt, Some r, tr) \<Rightarrow> (Some r, tr)
      | (attempt, None, tr) \<Rightarrow>
          (let (r, tr') = pairLoop env uri name attempt evs in (r, tr @ tr')))"

definition pairDeviceWithContext ::
  "PairEnv \<Rightarrow> string \<Rightarrow> string \<Rightarrow> select_event list
     \<Rightarrow> (pairing_error + string) option \<times> pair_event list" where
  "pairDeviceWithContext env host name evs =
     (let uri = ''https://'' @ host;
          (r, tr) = pairLoop env uri name 0 evs
      in (r, NewTicker 5 # tr))"

text \<open>\<^verbatim>\<open>PairSingleDevice\<close> returns an error or \<^verbatim>\<open>nil\<close>: \<open>Some (Some e)\<close>,
  \<open>Some None\<close>, and \<open>None\<close> while the call has not returned.\<close>

definition PairSingleDevice ::
  "PairEnv \<Rightarrow> string \<Rightarrow> string \<Rightarrow> select_event list
     \<Rightarrow> pairing_error option option \<times> pair_event list" where
  "PairSingleDevice env host name evs =
     (if \<not> namePattern_MatchString name then (Some (Some InvalidName), [])
      else
        (let (r, tr) = pairDeviceWithContext env host name evs
         in case r of
              None \<Rightarrow> (None, WithTimeout 180 # tr)
            | Some (Inl err) \<Rightarrow> (Some (Some (PairingFailed err)), WithTimeout 180 # tr)
            | Some (Inr token) \<Rightarrow> (Some None, WithTimeout 180 # tr)))"

section \<open>Package pairing: a batch of devices\<close>

type_synonym DeviceType = string

text \<open>\<^verbatim>\<open>discovery.DiscoveredDevice\<close>, as the repository's documentation declares it
  (its fields carry the prefix \<open>dd_\<close>, apart from those of \<^verbatim>\<open>PairedDevice\<close>).\<close>

record DiscoveredDevice =
  dd_Instance :: string
  dd_Host :: string
  dd_Port :: int
  dd_Type :: DeviceType

record PairedDevice =
  Host :: string
  Token :: string
  Type :: DeviceType

text \<open>The status line of a device, before formatting: \<^verbatim>\<open>"initializing..."\<close>,
  \<^verbatim>\<open>"waiting for button press (attempt %d/36)..."\<close>, \<^verbatim>\<open>"FAILED: %v"\<close>, \<^verbatim>\<open>"SUCCESS"\<close>.\<close>

datatype status_line = Initializing | Waiting int | Failed pairing_error | Success

record deviceStatus =
  device :: DiscoveredDevice
  status :: status_line
  attempt :: int
  token :: string
  err :: "pairing_error option"

text \<open>A goroutine of \<^verbatim>\<open>pairDevicesParallel\<close> is inside the loop of
  \<^verbatim>\<open>pairDeviceWithContext\<close>, holding the loop's counter, or has returned (and called
  \<^verbatim>\<open>wg.Done\<close>).\<close>

datatype goroutine = Running int | Returned

text \<open>Events of a batch: of the calling goroutine, or of the goroutine of device \<open>idx\<close>.\<close>

datatype run_event = Main pair_event | Goroutine nat pair_event

text \<open>The progress callback of the batch, applied for each call in an iteration's
  events.\<close>

fun onAttempt :: "deviceStatus \<Rightarrow> pair_event \<Rightarrow> deviceStatus" where
  "onAttempt st (OnAttempt k) = st\<lparr>status := Waiting k, attempt := k\<rparr>"
| "onAttempt st e = st"

text \<open>One \<^verbatim>\<open>select\<close> of the goroutine of one device: an iteration of the loop on the
  device's host, the callback, and, when the loop returns, the epilogue that records
  the token or the error under the lock. A goroutine that has returned receives
  nothing.\<close>

definition goroutineStep ::
  "PairEnv \<Rightarrow> string \<Rightarrow> deviceStatus \<times> goroutine \<Rightarrow> select_event
     \<Rightarrow> (deviceStatus \<times> goroutine) \<times> pair_event list" where
  "goroutineStep env name sg ev =
     (case sg of
        (st, Returned) \<Rightarrow> ((st, Returned), [])
      | (st, Running a) \<Rightarrow>
          (case pairIteration env (''https://'' @ dd_Host (device st)) name a ev of
             (a', r, tr) \<Rightarrow>
               (let st = foldl onAttempt st tr
                in case r of
                     None \<Rightarrow> ((st, Running a'), tr)
                   | Some (Inl e) \<Rightarrow> ((st\<lparr>status := Failed e, err := Some e\<rparr>, Returned), tr)
                   | Some (Inr tok) \<Rightarrow> ((st\<lparr>status := Success, token := tok\<rparr>, Returned), tr))))"

text \<open>The goroutines run concurrently. A schedule is the sequence of their receipts in
  the order they happen, each with the index of the goroutine that takes it; a receipt
  for an index that names no goroutine is dropped. The shared variables are the
  status table (each goroutine writes its own entry only, under the lock) and the
  context, which no goroutine cancels.\<close>

definition schedStep ::
  "PairEnv \<Rightarrow> string \<Rightarrow> deviceStatus list \<times> goroutine list \<times> run_event list
     \<Rightarrow> nat \<times> select_event \<Rightarrow> deviceStatus list \<times> goroutine list \<times> run_event list" where
  "schedStep env name state ie =
     (case (state, ie) of
        ((statuses, gs, tr), (idx, ev)) \<Rightarrow>
          if idx < length statuses \<and> idx < length gs then
            (case goroutineStep env name (statuses ! idx, gs ! idx) ev of
               ((st, g), evs) \<Rightarrow>
                 (statuses[idx := st], gs[idx := g], tr @ map (Goroutine idx) evs))
          else (statuses, gs, tr))"

text \<open>The result loop: the devices whose entry holds a token, and the count of the
  others (printed as a warning when positive).\<close>

fun buildResult ::
  "deviceStatus list \<Rightarrow> PairedDevice list \<Rightarrow> int \<Rightarrow> PairedDevice list \<times> int" where
  "buildResult [] paired failedCount = (paired, failedCount)"
| "buildResult (st # rest) paired failedCount =
     (if token st \<noteq> []
      then buildResult rest
             (paired @ [\<lparr>Host = dd_Host (device st), Token = token st,
                          Type = dd_Type (device st)\<rparr>]) failedCount
      else buildResult rest paired (failedCount + 1))"

text \<open>\<^verbatim>\<open>pairDevicesParallel\<close>: the paired devices with the failure count, once
  \<^verbatim>\<open>wg.Wait\<close> has returned, that is once every goroutine has returned; \<open>None\<close> while
  one of them has not.\<close>

definition pairDevicesParallel ::
  "PairEnv \<Rightarrow> DiscoveredDevice list \<Rightarrow> string \<Rightarrow> (nat \<times> select_event) list
     \<Rightarrow> (PairedDevice list \<times> int) option \<times> run_event list" where
  "pairDevicesParallel env devices name sched =
     (let statuses = map (\<lambda>d. \<lparr>device = d, status = Initializing, attempt = 0,
                                token = [], err = None\<rparr>) devices;
          gs = map (\<lambda>d. Running 0) devices;
          tr = Main (WithTimeout 180) # map (\<lambda>i. Goroutine i (NewTicker 5)) [0..<length devices];
          (statuses, gs, tr) = foldl (schedStep env name) (statuses, gs, tr) sched
      in if list_all (\<lambda>g. g = Returned) gs
         then (Some (buildResult statuses [] 0), tr)
         else (None, tr))"

text \<open>\<^verbatim>\<open>DiscoverAndPairDevices\<close>. The interactive discovery
  (\<^verbatim>\<open>discoverInteractively\<close>, which runs the discovery collaborator and asks the
  operator) is represented by the list it returns, \<open>discovered\<close>.\<close>

definition DiscoverAndPairDevices ::
  "PairEnv \<Rightarrow> string \<Rightarrow> int \<Rightarrow> DiscoveredDevice list \<Rightarrow> (nat \<times> select_event) list
     \<Rightarrow> pairing_error option option \<times> run_event list" where
  "DiscoverAndPairDevices env name timeout discovered sched =
     (if \<not> namePattern_MatchString name then (Some (Some InvalidName), [])
      else
        (let devices = discovered
         in if length devices = 0 then (Some (Some NoDevicesFound), [Main (Discover timeout)])
            else
              (case pairDevicesParallel env devices name sched of
                 (None, tr) \<Rightarrow> (None, Main (Discover timeout) # tr)
               | (Some paired, tr) \<Rightarrow> (Some None, Main (Discover timeout) # tr))))"

section \<open>Auxiliary definitions for the statements\<close>

text \<open>A cache has no fresh value at \<open>now\<close>: nothing was written yet, or the max-age
  has elapsed since the last write.\<close>

definition stale :: "int \<Rightarrow> 'a Monitor \<Rightarrow> bool" where
  "stale now m = (case slot m of None \<Rightarrow> True | Some (v, t) \<Rightarrow> maxAge m < now - t)"

subsection \<open>Sample devices\<close>

text \<open>Concrete values on which the statements are evaluated, with \<open>int\<close> in the place
  of \<^verbatim>\<open>float64\<close>: a grid meter and an energy meter whose measurement was written at
  time 0 with a max-age of 30, the grid meter's battery cache never written, on a
  connection that is down.\<close>

definition ex_conn :: Connection where
  "ex_conn = \<lparr>link = Disconnected, transport_write = (\<lambda>m. None)\<rparr>"

definition ex_p1m :: "int P1Measurement" where
  "ex_p1m = \<lparr>PowerW = 900, PowerL1W = 200, PowerL2W = 300, PowerL3W = 400,
             VoltageV = 230, VoltageL1V = 229, VoltageL2V = 231, VoltageL3V = 232,
             CurrentA = 4, CurrentL1A = 1, CurrentL2A = 1, CurrentL3A = 2,
             EnergyImportT1kWh = 1200, EnergyImportT2kWh = 800,
             EnergyExportT1kWh = 50, EnergyExportT2kWh = 70\<rparr>"

definition ex_kwhm :: "int KWHMeasurement" where
  "ex_kwhm = \<lparr>PowerW = -500, PowerL1W = -100, PowerL2W = -200, PowerL3W = -200,
             VoltageV = 230, VoltageL1V = 229, VoltageL2V = 231, VoltageL3V = 232,
             CurrentA = 3, CurrentL1A = 1, CurrentL2A = 1, CurrentL3A = 1,
             EnergyImportkWh = 10, EnergyExportkWh = 3000\<rparr>"

definition ex_bat :: "int BatteriesData" where
  "ex_bat = \<lparr>Mode = ''zero'', BatPowerW = 0, MaxConsumptionW = 800, MaxProductionW = 800\<rparr>"

definition ex_p1 :: "int P1MeterDevice" where
  "ex_p1 = \<lparr>dev_host = ''192.168.1.10'', dev_token = ''secret'', conn = ex_conn,
            measurement = Monitor_Set 0 ex_p1m (NewMonitor 30),
            batteriesData = NewMonitor 30\<rparr>"

definition ex_kwh :: "int KWHMeterDevice" where
  "ex_kwh = \<lparr>dev_host = ''192.168.1.11'', dev_token = ''secret'', conn = ex_conn,
             measurement = Monitor_Set 0 ex_kwhm (NewMonitor 30)\<rparr>"

text \<open>Decoders that accept one payload each.\<close>

definition ex_decodeM :: "string \<Rightarrow> error + int P1Measurement" where
  "ex_decodeM data = (if data = ''{m}'' then Inr ex_p1m else Inl (ErrExternal ''json''))"

definition ex_decodeB :: "string \<Rightarrow> error + int BatteriesData" where
  "ex_decodeB data = (if data = ''{b}'' then Inr ex_bat else Inl (ErrExternal ''json''))"

text \<open>An HTTP collaborator that builds every request and answers a \<^verbatim>\<open>PUT\<close> with
  battery data.\<close>

definition ex_http :: "int HttpEnv" where
  "ex_http = \<lparr>url_error = (\<lambda>u. None),
              JSONEncoding = [(''Content-Type'', ''application/json''),
                              (''Accept'', ''application/json'')],
              DoJSON = (\<lambda>req. if req_method req = ''PUT'' then Inr ex_bat
                               else Inl (ErrExternal ''unexpected status: 405''))\<rparr>"

subsection \<open>Auxiliary definitions for pairing\<close>

text \<open>The token request that \<^verbatim>\<open>requestToken\<close> sends for a base URI and a name, and the
  events of \<open>n\<close> successive attempts that each send it, after attempt number \<open>a\<close>:
  callback, request, callback, request, ...\<close>

definition tokenRequest :: "string \<Rightarrow> string \<Rightarrow> HttpRequest" where
  "tokenRequest uri name =
     \<lparr>req_method = ''POST'', req_uri = uri @ ''/api/user'',
      req_body = [(''name'', ''local/'' @ name)],
      req_header = [(''Content-Type'', ''application/json''), (''X-Api-Version'', ''2'')]\<rparr>"

fun pollEvents :: "HttpRequest \<Rightarrow> int \<Rightarrow> nat \<Rightarrow> pair_event list" where
  "pollEvents req a 0 = []"
| "pollEvents req a (Suc n) = OnAttempt (a + 1) # HttpPost req # pollEvents req (a + 1) n"

text \<open>A tick answered by the authorization-pending status, with some body.\<close>

definition pending :: "string \<Rightarrow> select_event" where
  "pending body = TickerC (Response 403 body)"

text \<open>The events of a run are well ordered from attempt number \<open>a\<close> on: the callback
  is called with \<open>a + 1\<close>, \<open>a + 2\<close>, ... and every request directly follows the callback
  of its attempt.\<close>

fun callbacks_precede :: "int \<Rightarrow> pair_event list \<Rightarrow> bool" where
  "callbacks_precede a [] = True"
| "callbacks_precede a (OnAttempt k # HttpPost r # tr) = (k = a + 1 \<and> callbacks_precede k tr)"
| "callbacks_precede a (OnAttempt k # tr) = (k = a + 1 \<and> callbacks_precede k tr)"
| "callbacks_precede a (e # tr) = False"

fun is_request :: "pair_event \<Rightarrow> bool" where
  "is_request (HttpPost r) = True"
| "is_request e = False"

text \<open>The receipts of one goroutine in a schedule, and what the single-device
  protocol returns for device \<open>i\<close> on them.\<close>

definition goroutine_events :: "nat \<Rightarrow> (nat \<times> select_event) list \<Rightarrow> select_event list" where
  "goroutine_events i sched = map snd (filter (\<lambda>ie. fst ie = i) sched)"

definition device_outcome ::
  "PairEnv \<Rightarrow> DiscoveredDevice list \<Rightarrow> string \<Rightarrow> (nat \<times> select_event) list \<Rightarrow> nat
     \<Rightarrow> (pairing_error + string) option" where
  "device_outcome env devices name sched i =
     fst (pairDeviceWithContext env (dd_Host (devices ! i)) name (goroutine_events i sched))"

text \<open>The entry of the result for device \<open>i\<close>, if its attempt produced a token.\<close>

definition paired_entry ::
  "PairEnv \<Rightarrow> DiscoveredDevice list \<Rightarrow> string \<Rightarrow> (nat \<times> select_event) list \<Rightarrow> nat
     \<Rightarrow> PairedDevice option" where
  "paired_entry env devices name sched i =
     (case device_outcome env devices name sched i of
        Some (Inr tok) \<Rightarrow>
          if tok \<noteq> [] then Some \<lparr>Host = dd_Host (devices ! i), Token = tok,
                                   Type = dd_Type (devices ! i)\<rparr>
          else None
      | _ \<Rightarrow> None)"

subsection \<open>Sample pairing environment\<close>

text \<open>Every URL parses; the decoder knows two bodies, one with a token and one without
  the \<^verbatim>\<open>token\<close> member (which Go decodes to the empty string).\<close>

definition ex_pairenv :: PairEnv where
  "ex_pairenv = \<lparr>new_request_error = (\<lambda>u. None),
                 decodeToken = (\<lambda>body. if body = ''{token: abc123}'' then Inr ''abc123''
                                        else if body = ''{}'' then Inr []
                                        else Inl ''invalid character'')\<rparr>"

definition ex_devices :: "DiscoveredDevice list" where
  "ex_devices =
     [\<lparr>dd_Instance = ''p1meter-0A1B2C'', dd_Host = ''192.168.1.10'', dd_Port = 443,
       dd_Type = ''p1meter''\<rparr>,
      \<lparr>dd_Instance = ''kwhmeter-3D4E5F'', dd_Host = ''192.168.1.11'', dd_Port = 443,
       dd_Type = ''kwhmeter''\<rparr>,
      \<lparr>dd_Instance = ''battery-6A7B8C'', dd_Host = ''192.168.1.12'', dd_Port = 443,
       dd_Type = ''battery''\<rparr>]"

section \<open>Properties of the device adapters\<close>

subsection \<open>The cache and the measurement accessor\<close>

lemma Monitor_Get_stale: "stale now m \<longleftrightarrow> Monitor_Get now m = Inl ErrOutdated"
  by (auto simp: stale_def Monitor_Get_def split: option.splits)

lemma Monitor_Get_fresh: "\<not> stale now m \<longleftrightarrow> (\<exists>v. Monitor_Get now m = Inr v)"
  by (auto simp: stale_def Monitor_Get_def split: option.splits)

lemma GetMeasurement_stale:
  "stale now (measurement d) \<Longrightarrow> GetMeasurement now d = Inl ErrTimeout"
  by (simp add: Monitor_Get_stale GetMeasurement_def)

lemma GetMeasurement_fresh:
  "Monitor_Get now (measurement d) = Inr m \<Longrightarrow> GetMeasurement now d = Inr m"
  by (simp add: GetMeasurement_def)

lemma P1_common_fields:
  "PowerW (P1_GetCommon m) = PowerW m" "PowerL1W (P1_GetCommon m) = PowerL1W m"
  "PowerL2W (P1_GetCommon m) = PowerL2W m" "PowerL3W (P1_GetCommon m) = PowerL3W m"
  by (simp_all add: P1_GetCommon_def CommonMeasurement.truncate_def)

lemma KWH_common_fields:
  "PowerW (KWH_GetCommon m) = PowerW m" "PowerL1W (KWH_GetCommon m) = PowerL1W m"
  "PowerL2W (KWH_GetCommon m) = PowerL2W m" "PowerL3W (KWH_GetCommon m) = PowerL3W m"
  "VoltageV (KWH_GetCommon m) = VoltageV m" "VoltageL1V (KWH_GetCommon m) = VoltageL1V m"
  "VoltageL2V (KWH_GetCommon m) = VoltageL2V m" "VoltageL3V (KWH_GetCommon m) = VoltageL3V m"
  "CurrentA (KWH_GetCommon m) = CurrentA m" "CurrentL1A (KWH_GetCommon m) = CurrentL1A m"
  "CurrentL2A (KWH_GetCommon m) = CurrentL2A m" "CurrentL3A (KWH_GetCommon m) = CurrentL3A m"
  by (simp_all add: KWH_GetCommon_def CommonMeasurement.truncate_def)

lemma ex_stale:
  "stale 31 (measurement ex_p1)" "stale 31 (measurement ex_kwh)" "stale 7 (batteriesData ex_p1)"
  by (simp_all add: stale_def ex_p1_def ex_kwh_def Monitor_Set_def NewMonitor_def)

lemma ex_fresh:
  "Monitor_Get 7 (measurement ex_p1) = Inr ex_p1m"
  "Monitor_Get 7 (measurement ex_kwh) = Inr ex_kwhm"
  by (simp_all add: Monitor_Get_def ex_p1_def ex_kwh_def Monitor_Set_def NewMonitor_def)

subsection \<open>Stale caches\<close>

text \<open>
  \<^bold>\<open>C6.\<close> Whenever the cache under an accessor has no fresh value (nothing written yet,
  or the max-age elapsed), the accessor fails with the generic timeout error
  \<^verbatim>\<open>api.ErrTimeout\<close>: \<^verbatim>\<open>GetMeasurement\<close>, \<^verbatim>\<open>GetPower\<close>, the three per-phase accessors
  and the total-energy accessors on the measurement cache, \<^verbatim>\<open>GetBatteryPowerLimits\<close> on
  the battery cache. \<open>stale\<close> is exactly the case in which the cache's \<^verbatim>\<open>Get\<close> fails
  with its stale condition (\<open>Monitor_Get_stale\<close>). The accessors are functions of the
  cache as it is at the time of the call: they return at once and wait for no later
  write.
\<close>

theorem C6_stale_cache_is_timeout:
  fixes d :: "('m, 'z) baseMeterDevice_scheme"
    and k :: "('f::{zero,plus,uminus}) KWHMeterDevice"
    and p :: "'f P1MeterDevice"
    and gc :: "'m \<Rightarrow> 'f CommonMeasurement"
  shows "(stale now (measurement d) \<longrightarrow>
            GetMeasurement now d = Inl ErrTimeout
          \<and> GetPower gc now d invertForPV = Inl ErrTimeout
          \<and> GetPhasePowers gc now d phases invertForPV = Inl ErrTimeout
          \<and> GetPhaseCurrents gc now d phases = Inl ErrTimeout
          \<and> GetPhaseVoltages gc now d phases = Inl ErrTimeout)
       \<and> (stale now (measurement k) \<longrightarrow> KWH_GetTotalEnergy now k usePV = Inl ErrTimeout)
       \<and> (stale now (measurement p) \<longrightarrow>
            P1_GetPower now p = Inl ErrTimeout
          \<and> P1_GetPhasePowers now p phases = Inl ErrTimeout
          \<and> P1_GetTotalEnergy now p = Inl ErrTimeout)
       \<and> (stale now (batteriesData p) \<longrightarrow> GetBatteryPowerLimits now p = Inl ErrTimeout)"
  by (simp add: GetMeasurement_stale GetPower_def GetPhasePowers_def GetPhaseCurrents_def
      GetPhaseVoltages_def KWH_GetTotalEnergy_def P1_GetPower_def P1_GetPhasePowers_def
      P1_GetTotalEnergy_def GetBatteryPowerLimits_def Monitor_Get_stale)

theorem C6_stale_cache_is_timeout_witness:
  "stale 31 (measurement ex_p1) \<and> stale 31 (measurement ex_kwh) \<and> stale 7 (batteriesData ex_p1)
   \<and> GetMeasurement 31 ex_p1 = Inl ErrTimeout
   \<and> GetPower P1_GetCommon 31 ex_p1 True = Inl ErrTimeout
   \<and> GetPhasePowers KWH_GetCommon 31 ex_kwh 3 False = Inl ErrTimeout
   \<and> GetPhaseCurrents P1_GetCommon 31 ex_p1 3 = Inl ErrTimeout
   \<and> GetPhaseVoltages P1_GetCommon 31 ex_p1 3 = Inl ErrTimeout
   \<and> KWH_GetTotalEnergy 31 ex_kwh True = Inl ErrTimeout
   \<and> P1_GetPower 31 ex_p1 = Inl ErrTimeout
   \<and> P1_GetPhasePowers 31 ex_p1 3 = Inl ErrTimeout
   \<and> P1_GetTotalEnergy 31 ex_p1 = Inl ErrTimeout
   \<and> GetBatteryPowerLimits 7 ex_p1 = Inl ErrTimeout"
  using C6_stale_cache_is_timeout [where now = 31 and d = ex_p1 and k = ex_kwh and p = ex_p1
      and gc = P1_GetCommon and invertForPV = True and phases = 3 and usePV = True]
    C6_stale_cache_is_timeout [where now = 31 and d = ex_kwh and k = ex_kwh and p = ex_p1
      and gc = KWH_GetCommon and invertForPV = False and phases = 3]
    C6_stale_cache_is_timeout [where now = 7 and d = ex_p1 and k = ex_kwh and p = ex_p1
      and gc = P1_GetCommon]
  by (simp add: ex_stale)

subsection \<open>Total energy\<close>

text \<open>
  \<^bold>\<open>C7.\<close> On a fresh grid-meter measurement \<^verbatim>\<open>GetTotalEnergy\<close> returns the sum of the
  tariff-1 and tariff-2 import fields; on a fresh energy-meter measurement it returns
  the export total when the caller asks for the PV convention and the import total
  otherwise.
\<close>

theorem C7_total_energy:
  fixes k :: "('f::plus) KWHMeterDevice" and p :: "'f P1MeterDevice"
  shows "(Monitor_Get now (measurement p) = Inr m \<longrightarrow>
            P1_GetTotalEnergy now p = Inr (EnergyImportT1kWh m + EnergyImportT2kWh m))
       \<and> (Monitor_Get now (measurement k) = Inr n \<longrightarrow>
            KWH_GetTotalEnergy now k True = Inr (EnergyExportkWh n)
          \<and> KWH_GetTotalEnergy now k False = Inr (EnergyImportkWh n))"
  by (simp add: GetMeasurement_fresh P1_GetTotalEnergy_def KWH_GetTotalEnergy_def)

theorem C7_total_energy_witness:
  "Monitor_Get 7 (measurement ex_p1) = Inr ex_p1m
   \<and> P1_GetTotalEnergy 7 ex_p1 = Inr 2000
   \<and> Monitor_Get 7 (measurement ex_kwh) = Inr ex_kwhm
   \<and> KWH_GetTotalEnergy 7 ex_kwh True = Inr 3000
   \<and> KWH_GetTotalEnergy 7 ex_kwh False = Inr 10"
  using C7_total_energy [where now = 7 and p = ex_p1 and k = ex_kwh and m = ex_p1m
      and n = ex_kwhm]
  by (simp add: ex_fresh ex_p1m_def ex_kwhm_def)

subsection \<open>Per-phase accessors\<close>

text \<open>
  \<^bold>\<open>C8.\<close> On a fresh measurement, each per-phase accessor called with phase count 1
  returns the aggregate value first and zero for the other two outputs, and called with
  phase count 3 returns the three line values; \<^verbatim>\<open>GetPhasePowers\<close> with inversion
  returns the negation of each of the three values (for phase count 1 these are the
  negated aggregate and twice the negation of zero).
\<close>

theorem C8_phase_conventions:
  fixes d :: "('m, 'z) baseMeterDevice_scheme"
    and gc :: "'m \<Rightarrow> ('f::{zero,uminus}) CommonMeasurement"
  assumes "Monitor_Get now (measurement d) = Inr m"
  shows "GetPhasePowers gc now d 1 False = Inr (PowerW (gc m), 0, 0)
       \<and> GetPhasePowers gc now d 3 False
            = Inr (PowerL1W (gc m), PowerL2W (gc m), PowerL3W (gc m))
       \<and> GetPhaseVoltages gc now d 1 = Inr (VoltageV (gc m), 0, 0)
       \<and> GetPhaseVoltages gc now d 3
            = Inr (VoltageL1V (gc m), VoltageL2V (gc m), VoltageL3V (gc m))
       \<and> GetPhaseCurrents gc now d 1 = Inr (CurrentA (gc m), 0, 0)
       \<and> GetPhaseCurrents gc now d 3
            = Inr (CurrentL1A (gc m), CurrentL2A (gc m), CurrentL3A (gc m))
       \<and> GetPhasePowers gc now d 1 True = Inr (- PowerW (gc m), - 0, - 0)
       \<and> GetPhasePowers gc now d 3 True
            = Inr (- PowerL1W (gc m), - PowerL2W (gc m), - PowerL3W (gc m))"
  using assms
  by (simp add: Let_def GetMeasurement_fresh GetPhasePowers_def GetPhaseCurrents_def
      GetPhaseVoltages_def)

theorem C8_phase_conventions_witness:
  "Monitor_Get 7 (measurement ex_kwh) = Inr ex_kwhm
   \<and> GetPhasePowers KWH_GetCommon 7 ex_kwh 1 False = Inr (-500, 0, 0)
   \<and> GetPhasePowers KWH_GetCommon 7 ex_kwh 3 False = Inr (-100, -200, -200)
   \<and> GetPhaseVoltages KWH_GetCommon 7 ex_kwh 1 = Inr (230, 0, 0)
   \<and> GetPhaseVoltages KWH_GetCommon 7 ex_kwh 3 = Inr (229, 231, 232)
   \<and> GetPhaseCurrents KWH_GetCommon 7 ex_kwh 1 = Inr (3, 0, 0)
   \<and> GetPhaseCurrents KWH_GetCommon 7 ex_kwh 3 = Inr (1, 1, 1)
   \<and> GetPhasePowers KWH_GetCommon 7 ex_kwh 1 True = Inr (500, 0, 0)
   \<and> GetPhasePowers KWH_GetCommon 7 ex_kwh 3 True = Inr (100, 200, 200)"
  using C8_phase_conventions [where now = 7 and d = ex_kwh and m = ex_kwhm
      and gc = KWH_GetCommon]
  by (simp add: ex_fresh KWH_common_fields ex_kwhm_def)

text \<open>
  \<^bold>\<open>C10.\<close> With a phase count other than 1 (0, 2, a negative number, ...) each
  per-phase accessor behaves exactly as with phase count 3, whatever the cache holds,
  and on a fresh measurement returns the three per-line fields; only the phase count 1
  selects the aggregate convention. The phase count is a Go \<^verbatim>\<open>int\<close>, compared with 1
  and never computed with, so \<open>int\<close> stands for it.
\<close>

theorem C10_other_phase_counts:
  fixes d :: "('m, 'z) baseMeterDevice_scheme"
    and gc :: "'m \<Rightarrow> ('f::{zero,uminus}) CommonMeasurement"
    and p :: "'f P1MeterDevice"
  assumes "phases \<noteq> 1"
  shows "GetPhasePowers gc now d phases invertForPV = GetPhasePowers gc now d 3 invertForPV
       \<and> GetPhaseCurrents gc now d phases = GetPhaseCurrents gc now d 3
       \<and> GetPhaseVoltages gc now d phases = GetPhaseVoltages gc now d 3
       \<and> P1_GetPhasePowers now p phases = P1_GetPhasePowers now p 3
       \<and> (Monitor_Get now (measurement d) = Inr m \<longrightarrow>
            GetPhasePowers gc now d phases False
              = Inr (PowerL1W (gc m), PowerL2W (gc m), PowerL3W (gc m))
          \<and> GetPhaseCurrents gc now d phases
              = Inr (CurrentL1A (gc m), CurrentL2A (gc m), CurrentL3A (gc m))
          \<and> GetPhaseVoltages gc now d phases
              = Inr (VoltageL1V (gc m), VoltageL2V (gc m), VoltageL3V (gc m)))
       \<and> (Monitor_Get now (measurement p) = Inr q \<longrightarrow>
            P1_GetPhasePowers now p phases = Inr (PowerL1W q, PowerL2W q, PowerL3W q))"
  using assms
  by (simp add: Let_def GetMeasurement_fresh GetPhasePowers_def GetPhaseCurrents_def
      GetPhaseVoltages_def P1_GetPhasePowers_def P1_common_fields split: sum.splits)

theorem C10_other_phase_counts_witness:
  "(0::int) \<noteq> 1
   \<and> GetPhasePowers KWH_GetCommon 7 ex_kwh 0 True = GetPhasePowers KWH_GetCommon 7 ex_kwh 3 True
   \<and> GetPhaseCurrents KWH_GetCommon 7 ex_kwh 0 = GetPhaseCurrents KWH_GetCommon 7 ex_kwh 3
   \<and> GetPhaseVoltages KWH_GetCommon 7 ex_kwh 0 = GetPhaseVoltages KWH_GetCommon 7 ex_kwh 3
   \<and> P1_GetPhasePowers 7 ex_p1 0 = P1_GetPhasePowers 7 ex_p1 3
   \<and> GetPhasePowers KWH_GetCommon 7 ex_kwh 0 False = Inr (-100, -200, -200)
   \<and> GetPhaseCurrents KWH_GetCommon 7 ex_kwh 0 = Inr (1, 1, 1)
   \<and> GetPhaseVoltages KWH_GetCommon 7 ex_kwh 0 = Inr (229, 231, 232)
   \<and> P1_GetPhasePowers 7 ex_p1 0 = Inr (200, 300, 400)"
  using C10_other_phase_counts [where phases = 0 and now = 7 and d = ex_kwh and m = ex_kwhm
      and gc = KWH_GetCommon and p = ex_p1 and q = ex_p1m and invertForPV = True]
  by (auto simp add: ex_fresh KWH_common_fields P1_common_fields ex_kwhm_def ex_p1m_def)

subsection \<open>The message handlers\<close>

text \<open>
  \<^bold>\<open>C9.\<close> A message of type \<^verbatim>\<open>"measurement"\<close> whose payload decodes is stored in the
  measurement cache (by the generic handler and, through it, by the grid meter's); a
  message of type \<^verbatim>\<open>"batteries"\<close> whose payload decodes is stored by the grid meter's
  handler in the battery cache; a message of any other type is ignored: the handler
  returns \<^verbatim>\<open>nil\<close> and the adapter, with both caches, is as before. For the generic
  handler, which has no battery cache, \<^verbatim>\<open>"batteries"\<close> is such another type. (A
  payload that does not decode makes the handler return the decoder's error, wrapped,
  with the caches as before: \<open>handler_decode_error\<close>.)
\<close>

theorem C9_handlers:
  fixes d :: "('m, 'z) baseMeterDevice_scheme" and p :: "'f P1MeterDevice"
  shows "(decode data = Inr m \<longrightarrow>
            handleMessage decode now ''measurement'' data d
              = (None, d\<lparr>measurement := Monitor_Set now m (measurement d)\<rparr>))
       \<and> (decodeM data = Inr q \<longrightarrow>
            handleP1Message decodeM decodeB now ''measurement'' data p
              = (None, p\<lparr>measurement := Monitor_Set now q (measurement p)\<rparr>))
       \<and> (decodeB data = Inr b \<longrightarrow>
            handleP1Message decodeM decodeB now ''batteries'' data p
              = (None, p\<lparr>batteriesData := Monitor_Set now b (batteriesData p)\<rparr>))
       \<and> (msgType \<noteq> ''measurement'' \<longrightarrow> handleMessage decode now msgType data d = (None, d))
       \<and> (msgType \<noteq> ''measurement'' \<and> msgType \<noteq> ''batteries'' \<longrightarrow>
            handleP1Message decodeM decodeB now msgType data p = (None, p))"
  by (simp add: handleMessage_def handleP1Message_def)

theorem C9_handlers_witness:
  "ex_decodeM ''{m}'' = Inr ex_p1m
   \<and> handleMessage ex_decodeM 40 ''measurement'' ''{m}'' ex_p1
       = (None, ex_p1\<lparr>measurement := Monitor_Set 40 ex_p1m (measurement ex_p1)\<rparr>)
   \<and> handleP1Message ex_decodeM ex_decodeB 40 ''measurement'' ''{m}'' ex_p1
       = (None, ex_p1\<lparr>measurement := Monitor_Set 40 ex_p1m (measurement ex_p1)\<rparr>)
   \<and> ex_decodeB ''{b}'' = Inr ex_bat
   \<and> handleP1Message ex_decodeM ex_decodeB 40 ''batteries'' ''{b}'' ex_p1
       = (None, ex_p1\<lparr>batteriesData := Monitor_Set 40 ex_bat (batteriesData ex_p1)\<rparr>)
   \<and> ''system'' \<noteq> ''measurement'' \<and> ''system'' \<noteq> ''batteries''
   \<and> handleMessage ex_decodeM 40 ''system'' ''{m}'' ex_p1 = (None, ex_p1)
   \<and> handleP1Message ex_decodeM ex_decodeB 40 ''system'' ''{m}'' ex_p1 = (None, ex_p1)"
  using C9_handlers [where decode = ex_decodeM and decodeM = ex_decodeM and decodeB = ex_decodeB
      and data = "''{m}''" and m = ex_p1m and q = ex_p1m and now = 40 and d = ex_p1 and p = ex_p1
      and msgType = "''system''"]
    C9_handlers [where decode = ex_decodeM and decodeM = ex_decodeM and decodeB = ex_decodeB
      and data = "''{b}''" and b = ex_bat and m = ex_p1m and q = ex_p1m and now = 40
      and d = ex_p1 and p = ex_p1 and msgType = "''system''"]
  by (simp add: ex_decodeM_def ex_decodeB_def)

lemma handler_decode_error:
  "decode data = Inl e \<Longrightarrow>
     handleMessage decode now ''measurement'' data d
       = (Some (ErrWrap ''unmarshal meter measurement'' e), d)"
  "decodeB data = Inl e \<Longrightarrow>
     handleP1Message decodeM decodeB now ''batteries'' data p
       = (Some (ErrWrap ''unmarshal batteries data'' e), p)"
  by (simp_all add: handleMessage_def handleP1Message_def)

lemma stored_measurement_is_read:
  "0 \<le> maxAge (measurement d) \<Longrightarrow> decode data = Inr m \<Longrightarrow>
     GetMeasurement now (snd (handleMessage decode now ''measurement'' data d)) = Inr m"
  by (simp add: handleMessage_def GetMeasurement_def Monitor_Get_def Monitor_Set_def)

subsection \<open>Battery control\<close>

lemma setBatteryModeHTTP_events:
  "snd (setBatteryModeHTTP env d mode) = [] \<or>
   (\<exists>req. snd (setBatteryModeHTTP env d mode) = [HttpDo req]
      \<and> req_method req = ''PUT''
      \<and> req_uri req = ''https://'' @ dev_host d @ ''/api/batteries''
      \<and> req_body req = [(''mode'', mode)])"
  by (simp add: setBatteryModeHTTP_def request_New_def Header_Set_def Let_def
      split: option.splits sum.splits)

lemma setBatteryModeHTTP_sent:
  "(snd (setBatteryModeHTTP env d mode) \<noteq> []) =
   (url_error env (''https://'' @ dev_host d @ ''/api/batteries'') = None)"
  by (simp add: setBatteryModeHTTP_def request_New_def Let_def split: option.splits sum.splits)

lemma setBatteryModeHTTP_ok:
  "(fst (setBatteryModeHTTP env d mode) = None) =
   (\<exists>req res. snd (setBatteryModeHTTP env d mode) = [HttpDo req] \<and> DoJSON env req = Inr res)"
  by (auto simp add: setBatteryModeHTTP_def request_New_def Let_def
      split: option.splits sum.splits)

text \<open>
  \<^bold>\<open>C5.\<close> \<^verbatim>\<open>SetBatteryMode(mode)\<close> on a grid meter first hands the in-band control
  message, carrying the mode, to the connection (\<open>sent\<close> is the outcome of that
  \<^verbatim>\<open>Send\<close>). If the send succeeds the call sleeps 100 ms and succeeds, with no HTTP
  request. If the send fails the rest of the call is the HTTP fallback: an HTTP request
  is performed if and only if the send failed (and the request for the device's URL
  could be built), it is a \<^verbatim>\<open>PUT\<close> to \<^verbatim>\<open>https://<host>/api/batteries\<close> with the same mode
  in its body, and the fallback neither sleeps nor sends in-band again. With the
  connection \<open>Disconnected\<close> the send fails as not connected, and the call succeeds
  exactly when the fallback request was performed and succeeded.
\<close>

theorem C5_SetBatteryMode_fallback:
  fixes env :: "('f, 'z) HttpEnv_scheme" and d :: "'f P1MeterDevice" and mode :: string
  defines "msg \<equiv> \<lparr>msg_type = ''batteries'', msg_data = [(''mode'', mode)]\<rparr>"
      and "uri \<equiv> ''https://'' @ dev_host d @ ''/api/batteries''"
  defines "sent \<equiv> Connection_Send (conn d) msg"
      and "res \<equiv> fst (SetBatteryMode env d mode)"
      and "evs \<equiv> snd (SetBatteryMode env d mode)"
  shows "(\<exists>rest. evs = ConnSend msg # rest)
       \<and> (sent = None \<longrightarrow> res = None \<and> evs = [ConnSend msg, Sleep 100])
       \<and> (sent \<noteq> None \<longrightarrow> (res, tl evs) = setBatteryModeHTTP env d mode)
       \<and> ((\<exists>req. HttpDo req \<in> set evs) \<longleftrightarrow> sent \<noteq> None \<and> url_error env uri = None)
       \<and> (\<forall>req. HttpDo req \<in> set evs \<longrightarrow>
             req_method req = ''PUT'' \<and> req_uri req = uri \<and> req_body req = [(''mode'', mode)])
       \<and> (sent \<noteq> None \<longrightarrow> (\<forall>n. Sleep n \<notin> set evs) \<and> (\<forall>m. ConnSend m \<notin> set (tl evs)))
       \<and> (link (conn d) = Disconnected \<longrightarrow>
             sent = Some ErrNotConnected
           \<and> (res = None \<longleftrightarrow>
                 (\<exists>req r. evs = [ConnSend msg, HttpDo req] \<and> DoJSON env req = Inr r)))"
proof -
  let ?h = "setBatteryModeHTTP env d mode"
  have ev: "snd ?h = [] \<or> (\<exists>req. snd ?h = [HttpDo req] \<and> req_method req = ''PUT''
      \<and> req_uri req = uri \<and> req_body req = [(''mode'', mode)])"
    unfolding uri_def by (rule setBatteryModeHTTP_events)
  have snt: "(snd ?h \<noteq> []) = (url_error env uri = None)"
    unfolding uri_def by (rule setBatteryModeHTTP_sent)
  have ok: "(fst ?h = None) = (\<exists>req r. snd ?h = [HttpDo req] \<and> DoJSON env req = Inr r)"
    by (rule setBatteryModeHTTP_ok)
  show ?thesis
  proof (cases sent)
    case None
    then have "SetBatteryMode env d mode = (None, [ConnSend msg, Sleep 100])"
      by (simp add: SetBatteryMode_def sent_def msg_def)
    with None show ?thesis
      by (auto simp add: res_def evs_def sent_def Connection_Send_def split: if_splits)
  next
    case (Some e)
    then have run: "SetBatteryMode env d mode = (fst ?h, ConnSend msg # snd ?h)"
      by (simp add: SetBatteryMode_def sent_def msg_def split_beta)
    have disc: "link (conn d) = Disconnected \<longrightarrow> sent = Some ErrNotConnected"
      by (simp add: sent_def Connection_Send_def)
    from ev show ?thesis
    proof
      assume e0: "snd ?h = []"
      with snt have "url_error env uri \<noteq> None" by simp
      with e0 ok Some run disc show ?thesis
        by (simp add: res_def evs_def prod_eq_iff)
    next
      assume "\<exists>req. snd ?h = [HttpDo req] \<and> req_method req = ''PUT''
        \<and> req_uri req = uri \<and> req_body req = [(''mode'', mode)]"
      then obtain req where r: "snd ?h = [HttpDo req]" "req_method req = ''PUT''"
        "req_uri req = uri" "req_body req = [(''mode'', mode)]" by blast
      with snt have "url_error env uri = None" by simp
      with r ok Some run disc show ?thesis
        by (auto simp add: res_def evs_def prod_eq_iff)
    qed
  qed
qed

theorem C5_SetBatteryMode_fallback_witness:
  "link (conn ex_p1) = Disconnected
   \<and> Connection_Send (conn ex_p1) \<lparr>msg_type = ''batteries'', msg_data = [(''mode'', ''zero'')]\<rparr>
       = Some ErrNotConnected
   \<and> SetBatteryMode ex_http ex_p1 ''zero''
       = (None,
          [ConnSend \<lparr>msg_type = ''batteries'', msg_data = [(''mode'', ''zero'')]\<rparr>,
           HttpDo \<lparr>req_method = ''PUT'', req_uri = ''https://192.168.1.10/api/batteries'',
                   req_body = [(''mode'', ''zero'')],
                   req_header = [(''Authorization'', ''Bearer secret''),
                                 (''X-Api-Version'', ''2''),
                                 (''Content-Type'', ''application/json''),
                                 (''Accept'', ''application/json'')]\<rparr>])
   \<and> Connection_Send (conn (ex_p1\<lparr>conn := ex_conn\<lparr>link := Connected\<rparr>\<rparr>))
         \<lparr>msg_type = ''batteries'', msg_data = [(''mode'', ''zero'')]\<rparr> = None
   \<and> SetBatteryMode ex_http (ex_p1\<lparr>conn := ex_conn\<lparr>link := Connected\<rparr>\<rparr>) ''zero''
       = (None,
          [ConnSend \<lparr>msg_type = ''batteries'', msg_data = [(''mode'', ''zero'')]\<rparr>, Sleep 100])"
proof -
  have down: "link (conn ex_p1) = Disconnected"
    by (simp add: ex_p1_def ex_conn_def)
  have up: "Connection_Send (conn (ex_p1\<lparr>conn := ex_conn\<lparr>link := Connected\<rparr>\<rparr>))
      \<lparr>msg_type = ''batteries'', msg_data = [(''mode'', ''zero'')]\<rparr> = None"
    by (simp add: Connection_Send_def ex_conn_def)
  have http: "setBatteryModeHTTP ex_http ex_p1 ''zero''
      = (None,
         [HttpDo \<lparr>req_method = ''PUT'', req_uri = ''https://192.168.1.10/api/batteries'',
                  req_body = [(''mode'', ''zero'')],
                  req_header = [(''Authorization'', ''Bearer secret''),
                                (''X-Api-Version'', ''2''),
                                (''Content-Type'', ''application/json''),
                                (''Accept'', ''application/json'')]\<rparr>])"
    by (simp add: setBatteryModeHTTP_def request_New_def Header_Set_def ex_http_def ex_p1_def)
  note a = C5_SetBatteryMode_fallback [where env = ex_http and d = ex_p1 and mode = "''zero''"]
  note b = C5_SetBatteryMode_fallback [where env = ex_http
      and d = "ex_p1\<lparr>conn := ex_conn\<lparr>link := Connected\<rparr>\<rparr>" and mode = "''zero''"]
  from a down have s: "Connection_Send (conn ex_p1)
      \<lparr>msg_type = ''batteries'', msg_data = [(''mode'', ''zero'')]\<rparr> = Some ErrNotConnected"
    by blast
  from a s have "\<exists>rest. snd (SetBatteryMode ex_http ex_p1 ''zero'')
      = ConnSend \<lparr>msg_type = ''batteries'', msg_data = [(''mode'', ''zero'')]\<rparr> # rest"
    and "(fst (SetBatteryMode ex_http ex_p1 ''zero''), tl (snd (SetBatteryMode ex_http ex_p1 ''zero'')))
      = setBatteryModeHTTP ex_http ex_p1 ''zero''"
    by simp_all
  with http have r1: "SetBatteryMode ex_http ex_p1 ''zero''
      = (None, [ConnSend \<lparr>msg_type = ''batteries'', msg_data = [(''mode'', ''zero'')]\<rparr>,
           HttpDo \<lparr>req_method = ''PUT'', req_uri = ''https://192.168.1.10/api/batteries'',
                   req_body = [(''mode'', ''zero'')],
                   req_header = [(''Authorization'', ''Bearer secret''),
                                 (''X-Api-Version'', ''2''),
                                 (''Content-Type'', ''application/json''),
                                 (''Accept'', ''application/json'')]\<rparr>])"
    by (auto simp add: prod_eq_iff)
  from b up have r2: "SetBatteryMode ex_http (ex_p1\<lparr>conn := ex_conn\<lparr>link := Connected\<rparr>\<rparr>) ''zero''
      = (None, [ConnSend \<lparr>msg_type = ''batteries'', msg_data = [(''mode'', ''zero'')]\<rparr>, Sleep 100])"
    by (simp add: prod_eq_iff)
  from down s r1 up r2 show ?thesis by simp
qed

section \<open>Properties of pairing\<close>

subsection \<open>The name pattern\<close>

lemma match_repeat_iff:
  "match_repeat cls lo hi s \<longleftrightarrow> lo \<le> length s \<and> length s \<le> hi \<and> list_all cls s"
  by (induction s arbitrary: lo hi) auto

text \<open>A character whose code lies in a range is one of the characters whose codes
  fill the range.\<close>

lemma of_char_in_range:
  assumes "lo \<le> (of_char c :: nat)" and "(of_char c :: nat) \<le> hi"
    and "set [lo..<Suc hi] = of_char ` set cs"
  shows "c \<in> set cs"
proof -
  from assms(1,2) have "(of_char c :: nat) \<in> set [lo..<Suc hi]" by auto
  with assms(3) have "(of_char c :: nat) \<in> of_char ` set cs" by simp
  then show ?thesis by (simp only: inj_image_mem_iff [OF inj_of_char])
qed

lemma lower_range:
  "(97 \<le> (of_char c :: nat) \<and> (of_char c :: nat) \<le> 122)
     \<longleftrightarrow> c \<in> set ''abcdefghijklmnopqrstuvwxyz''"
proof
  assume r: "97 \<le> (of_char c :: nat) \<and> (of_char c :: nat) \<le> 122"
  have "set [97..<Suc 122] = of_char ` set ''abcdefghijklmnopqrstuvwxyz''"
    by (simp add: upt_rec_numeral)
  with r show "c \<in> set ''abcdefghijklmnopqrstuvwxyz''"
    using of_char_in_range by blast
next
  assume "c \<in> set ''abcdefghijklmnopqrstuvwxyz''"
  then show "97 \<le> (of_char c :: nat) \<and> (of_char c :: nat) \<le> 122"
    by auto
qed

lemma upper_range:
  "(65 \<le> (of_char c :: nat) \<and> (of_char c :: nat) \<le> 90)
     \<longleftrightarrow> c \<in> set ''ABCDEFGHIJKLMNOPQRSTUVWXYZ''"
proof
  assume r: "65 \<le> (of_char c :: nat) \<and> (of_char c :: nat) \<le> 90"
  have "set [65..<Suc 90] = of_char ` set ''ABCDEFGHIJKLMNOPQRSTUVWXYZ''"
    by (simp add: upt_rec_numeral)
  with r show "c \<in> set ''ABCDEFGHIJKLMNOPQRSTUVWXYZ''"
    using of_char_in_range by blast
next
  assume "c \<in> set ''ABCDEFGHIJKLMNOPQRSTUVWXYZ''"
  then show "65 \<le> (of_char c :: nat) \<and> (of_char c :: nat) \<le> 90"
    by auto
qed

lemma digit_range:
  "(48 \<le> (of_char c :: nat) \<and> (of_char c :: nat) \<le> 57) \<longleftrightarrow> c \<in> set ''0123456789''"
proof
  assume r: "48 \<le> (of_char c :: nat) \<and> (of_char c :: nat) \<le> 57"
  have "set [48..<Suc 57] = of_char ` set ''0123456789''"
    by (simp add: upt_rec_numeral)
  with r show "c \<in> set ''0123456789''"
    using of_char_in_range by blast
next
  assume "c \<in> set ''0123456789''"
  then show "48 \<le> (of_char c :: nat) \<and> (of_char c :: nat) \<le> 57"
    by auto
qed

lemma letters_split:
  "c \<in> set letters \<longleftrightarrow>
     c \<in> set ''abcdefghijklmnopqrstuvwxyz'' \<or> c \<in> set ''ABCDEFGHIJKLMNOPQRSTUVWXYZ''"
proof -
  have "letters = ''abcdefghijklmnopqrstuvwxyz'' @ ''ABCDEFGHIJKLMNOPQRSTUVWXYZ''"
    by (simp add: letters_def)
  then have "set letters
      = set ''abcdefghijklmnopqrstuvwxyz'' \<union> set ''ABCDEFGHIJKLMNOPQRSTUVWXYZ''"
    by (metis set_append)
  then show ?thesis
    by blast
qed

lemma class_matches_namePattern:
  "class_matches namePattern_class c \<longleftrightarrow>
     c \<in> set letters \<or> c \<in> set digits \<or> c \<in> set punctuation"
proof -
  have "class_matches namePattern_class c \<longleftrightarrow>
      (97 \<le> (of_char c :: nat) \<and> (of_char c :: nat) \<le> 122)
    \<or> (65 \<le> (of_char c :: nat) \<and> (of_char c :: nat) \<le> 90)
    \<or> (48 \<le> (of_char c :: nat) \<and> (of_char c :: nat) \<le> 57)
    \<or> c \<in> set punctuation"
    by (simp add: class_matches_def namePattern_class_def punctuation_def)
  then show ?thesis
    unfolding lower_range upper_range digit_range letters_split digits_def by blast
qed

lemma namePattern_is_valid_name: "namePattern_MatchString name \<longleftrightarrow> valid_name name"
  by (simp add: namePattern_MatchString_def valid_name_def match_repeat_iff
      class_matches_namePattern [abs_def])

lemma PairSingleDevice_invalid:
  "\<not> valid_name name \<Longrightarrow> PairSingleDevice env host name evs = (Some (Some InvalidName), [])"
  by (simp add: PairSingleDevice_def namePattern_is_valid_name)

lemma PairSingleDevice_valid:
  "valid_name name \<Longrightarrow> fst (PairSingleDevice env host name evs) \<noteq> Some (Some InvalidName)"
  by (simp add: PairSingleDevice_def namePattern_is_valid_name split_beta
      split: option.splits sum.splits)

lemma DiscoverAndPairDevices_invalid:
  "\<not> valid_name name \<Longrightarrow>
     DiscoverAndPairDevices env name timeout discovered sched = (Some (Some InvalidName), [])"
  by (simp add: DiscoverAndPairDevices_def namePattern_is_valid_name)

lemma DiscoverAndPairDevices_valid:
  "valid_name name \<Longrightarrow>
     fst (DiscoverAndPairDevices env name timeout discovered sched) \<noteq> Some (Some InvalidName)"
  by (simp add: DiscoverAndPairDevices_def namePattern_is_valid_name split_beta
      split: option.splits sum.splits prod.splits)

text \<open>
  \<^bold>\<open>C3.\<close> The pattern accepts a name if and only if the name has 1 to 40 characters, each
  a letter (\<open>a\<close> to \<open>z\<close>, \<open>A\<close> to \<open>Z\<close>), a digit, or one of \<^verbatim>\<open>- _ / \ #\<close> and space. On a
  name that fails the rule \<^verbatim>\<open>PairSingleDevice\<close> and \<^verbatim>\<open>DiscoverAndPairDevices\<close> return
  the invalid-name error with an empty list of events: no context, ticker, request or
  discovery was started. On a name that meets the rule neither returns that error.
\<close>

theorem C3_name_rule:
  "(namePattern_MatchString name \<longleftrightarrow> valid_name name)
   \<and> (\<not> valid_name name \<longrightarrow>
         PairSingleDevice env host name evs = (Some (Some InvalidName), [])
       \<and> DiscoverAndPairDevices env name timeout discovered sched
           = (Some (Some InvalidName), []))
   \<and> (valid_name name \<longrightarrow>
         fst (PairSingleDevice env host name evs) \<noteq> Some (Some InvalidName)
       \<and> fst (DiscoverAndPairDevices env name timeout discovered sched)
           \<noteq> Some (Some InvalidName))"
  using namePattern_is_valid_name PairSingleDevice_invalid PairSingleDevice_valid
    DiscoverAndPairDevices_invalid DiscoverAndPairDevices_valid
  by blast

lemma ex_invalid_names:
  "\<not> valid_name []" "\<not> valid_name (replicate 41 CHR ''a'')" "\<not> valid_name ''evcc@home''"
  by (simp_all add: valid_name_def letters_def digits_def punctuation_def)

lemma ex_valid_names:
  "valid_name ''evcc''" "valid_name ''My Home-1_a/b#2''" "valid_name (replicate 40 CHR ''a'')"
  by (simp_all add: valid_name_def letters_def digits_def punctuation_def list_all_iff)
lemma requestToken_status:
  assumes "new_request_error env (uri @ ''/api/user'') = None" and "StatusCode \<noteq> 200"
  shows "requestToken env uri name (Response StatusCode body)
           = (Inl (HttpError StatusCode body), [HttpPost (tokenRequest uri name)])"
  using assms by (simp add: requestToken_def tokenRequest_def Header_Set_def)

lemma requestToken_token:
  assumes "new_request_error env (uri @ ''/api/user'') = None" and "decodeToken env body = Inr tok"
  shows "requestToken env uri name (Response 200 body)
           = (Inr tok, [HttpPost (tokenRequest uri name)])"
  using assms by (simp add: requestToken_def tokenRequest_def Header_Set_def)

lemma requestToken_events:
  "snd (requestToken env uri name resp) = [] \<or>
   snd (requestToken env uri name resp) = [HttpPost (tokenRequest uri name)]"
  by (simp add: requestToken_def tokenRequest_def Header_Set_def Let_def
      split: option.splits http_result.splits sum.splits)

lemma pairLoop_pending:
  assumes "new_request_error env (uri @ ''/api/user'') = None"
  shows "pairLoop env uri name a (pending body # evs)
           = (fst (pairLoop env uri name (a + 1) evs),
              OnAttempt (a + 1) # HttpPost (tokenRequest uri name)
                # snd (pairLoop env uri name (a + 1) evs))"
  using assms
  by (simp add: pending_def pairIteration_def requestToken_status split_beta Let_def)

lemma pairLoop_fatal:
  assumes "new_request_error env (uri @ ''/api/user'') = None"
    and "StatusCode \<noteq> 200" and "StatusCode \<noteq> 403"
  shows "pairLoop env uri name a (TickerC (Response StatusCode body) # evs)
           = (Some (Inl (Fatal (HttpError StatusCode body))),
              [OnAttempt (a + 1), HttpPost (tokenRequest uri name)])"
  using assms
  by (simp add: pairIteration_def requestToken_status Let_def)

lemma pairLoop_token:
  assumes "new_request_error env (uri @ ''/api/user'') = None" and "decodeToken env body = Inr tok"
  shows "pairLoop env uri name a (TickerC (Response 200 body) # evs)
           = (Some (Inr tok), [OnAttempt (a + 1), HttpPost (tokenRequest uri name)])"
  using assms
  by (simp add: pairIteration_def requestToken_token Let_def)

lemma pairLoop_done: "pairLoop env uri name a (CtxDone # evs) = (Some (Inl Timeout), [])"
  by (simp add: pairIteration_def)

lemma pairLoop_pendings:
  assumes "new_request_error env (uri @ ''/api/user'') = None"
  shows "pairLoop env uri name a (map pending bodies @ evs)
           = (fst (pairLoop env uri name (a + int (length bodies)) evs),
              pollEvents (tokenRequest uri name) a (length bodies)
                @ snd (pairLoop env uri name (a + int (length bodies)) evs))"
proof (induction bodies arbitrary: a)
  case Nil
  show ?case by simp
next
  case (Cons b bodies)
  have "a + 1 + int (length bodies) = a + int (length (b # bodies))" by simp
  with Cons [of "a + 1"] show ?case
    by (simp add: pairLoop_pending [OF assms] del: pairLoop.simps)
qed

lemma callbacks_precede_step:
  "net = [] \<or> net = [HttpPost r] \<Longrightarrow> callbacks_precede (a + 1) tr \<Longrightarrow>
     callbacks_precede a (OnAttempt (a + 1) # net @ tr)"
  by (cases "(a + 1, tr)" rule: callbacks_precede.cases) auto

lemma pairLoop_callbacks_precede: "callbacks_precede a (snd (pairLoop env uri name a evs))"
proof (induction evs arbitrary: a)
  case Nil
  show ?case by simp
next
  case (Cons ev evs)
  show ?case
  proof (cases ev)
    case CtxDone
    then show ?thesis by (simp add: pairIteration_def Let_def)
  next
    case (TickerC resp)
    obtain r net where rt: "requestToken env uri name resp = (r, net)"
      by (cases "requestToken env uri name resp")
    with requestToken_events [of env uri name resp]
    have net: "net = [] \<or> net = [HttpPost (tokenRequest uri name)]" by simp
    from net have fin: "callbacks_precede a (OnAttempt (a + 1) # net)"
      using callbacks_precede_step [of net _ a "[]"] by simp
    show ?thesis
    proof (cases r)
      case (Inr tok)
      with TickerC rt fin show ?thesis by (simp add: pairIteration_def Let_def)
    next
      case (Inl e)
      show ?thesis
      proof (cases "isButtonPressRequired e")
        case False
        with TickerC rt fin Inl show ?thesis by (simp add: pairIteration_def Let_def)
      next
        case True
        with TickerC rt Inl have "snd (pairLoop env uri name a (ev # evs))
            = OnAttempt (a + 1) # net @ snd (pairLoop env uri name (a + 1) evs)"
          by (simp add: pairIteration_def split_beta Let_def)
        with net Cons [of "a + 1"] show ?thesis
          using callbacks_precede_step by metis
      qed
    qed
  qed
qed

lemma pairLoop_timeout_only_done:
  "fst (pairLoop env uri name a evs) = Some (Inl Timeout) \<Longrightarrow> CtxDone \<in> set evs"
proof (induction evs arbitrary: a)
  case Nil
  then show ?case by simp
next
  case (Cons ev evs)
  show ?case
  proof (cases ev)
    case CtxDone
    then show ?thesis by simp
  next
    case (TickerC resp)
    with Cons.prems have "fst (pairLoop env uri name (a + 1) evs) = Some (Inl Timeout)"
      by (auto simp add: pairIteration_def Let_def split_beta
          split: sum.splits if_splits prod.splits)
    with Cons.IH show ?thesis by simp
  qed
qed

lemma pollEvents_requests: "length (filter is_request (pollEvents req a n)) = n"
  by (induction n arbitrary: a) simp_all

lemma pollEvents_Suc:
  "pollEvents req a (Suc n) = pollEvents req a n @ [OnAttempt (a + int (Suc n)), HttpPost req]"
proof (induction n arbitrary: a)
  case 0
  show ?case by simp
next
  case (Suc n)
  have "a + 1 + int (Suc n) = a + int (Suc (Suc n))" by simp
  with Suc [of "a + 1"] show ?case by simp
qed

lemma pollEvents_last_callback: "OnAttempt (a + int (Suc n)) \<in> set (pollEvents req a (Suc n))"
  by (simp only: pollEvents_Suc) simp

text \<open>
  \<^bold>\<open>C2.\<close> In the polling loop, at any value \<open>a\<close> of the attempt counter, a token request
  answered with a status other than 200 has one of two effects. Status 403: the loop
  goes on, and the result of the run is that of the loop on the receipts that follow,
  from attempt \<open>a + 1\<close>. Any other status: the loop returns at once the fatal error that
  wraps the HTTP error, and nothing that follows is looked at; in a whole run whose
  earlier answers were all 403 the failing request is the last event.
\<close>

theorem C2_pending_retried_others_fatal:
  assumes "new_request_error env (''https://'' @ host @ ''/api/user'') = None"
    and "StatusCode \<noteq> 200"
  shows "(StatusCode = 403 \<longrightarrow>
            pairLoop env (''https://'' @ host) name a (TickerC (Response StatusCode body) # evs)
              = (fst (pairLoop env (''https://'' @ host) name (a + 1) evs),
                 OnAttempt (a + 1) # HttpPost (tokenRequest (''https://'' @ host) name)
                   # snd (pairLoop env (''https://'' @ host) name (a + 1) evs)))
       \<and> (StatusCode \<noteq> 403 \<longrightarrow>
            pairLoop env (''https://'' @ host) name a (TickerC (Response StatusCode body) # evs)
              = (Some (Inl (Fatal (HttpError StatusCode body))),
                 [OnAttempt (a + 1), HttpPost (tokenRequest (''https://'' @ host) name)])
          \<and> pairDeviceWithContext env host name
                (map pending bodies @ TickerC (Response StatusCode body) # evs)
              = (Some (Inl (Fatal (HttpError StatusCode body))),
                 NewTicker 5
                   # pollEvents (tokenRequest (''https://'' @ host) name) 0 (Suc (length bodies))))"
proof -
  have url: "new_request_error env ((''https://'' @ host) @ ''/api/user'') = None"
    using assms(1) by simp
  show ?thesis
  proof (cases "StatusCode = 403")
    case True
    with pairLoop_pending [OF url, of name a body evs] show ?thesis
      by (simp add: pending_def del: pairLoop.simps)
  next
    case False
    note fatal = pairLoop_fatal [OF url assms(2) False]
    from fatal [of name "int (length bodies)" body evs] pairLoop_pendings [OF url, of name 0 bodies]
    have "pairDeviceWithContext env host name
        (map pending bodies @ TickerC (Response StatusCode body) # evs)
      = (Some (Inl (Fatal (HttpError StatusCode body))),
         NewTicker 5 # pollEvents (tokenRequest (''https://'' @ host) name) 0 (Suc (length bodies)))"
      by (simp add: pairDeviceWithContext_def pollEvents_Suc del: pairLoop.simps pollEvents.simps)
    with False fatal [of name a body evs] show ?thesis by simp
  qed
qed


lemma ex_url_ok: "new_request_error ex_pairenv u = None"
  by (simp add: ex_pairenv_def)

lemma ex_token: "decodeToken ex_pairenv ''{token: abc123}'' = Inr ''abc123''"
  by (simp add: ex_pairenv_def)

theorem C2_pending_retried_others_fatal_witness:
  "new_request_error ex_pairenv (''https://'' @ ''192.168.1.10'' @ ''/api/user'') = None
   \<and> (500::int) \<noteq> 200 \<and> (500::int) \<noteq> 403 \<and> (403::int) \<noteq> 200
   \<and> pairDeviceWithContext ex_pairenv ''192.168.1.10'' ''evcc''
         (map pending [[], []] @ TickerC (Response 500 ''oops'')
            # [TickerC (Response 200 ''{token: abc123}'')])
       = (Some (Inl (Fatal (HttpError 500 ''oops''))),
          NewTicker 5 # pollEvents (tokenRequest (''https://'' @ ''192.168.1.10'') ''evcc'') 0 3)
   \<and> pairLoop ex_pairenv (''https://'' @ ''192.168.1.10'') ''evcc'' 0
         (TickerC (Response 403 []) # [TickerC (Response 200 ''{token: abc123}'')])
       = (Some (Inr ''abc123''),
          [OnAttempt 1, HttpPost (tokenRequest (''https://'' @ ''192.168.1.10'') ''evcc''),
           OnAttempt 2, HttpPost (tokenRequest (''https://'' @ ''192.168.1.10'') ''evcc'')])"
proof -
  have url: "new_request_error ex_pairenv (''https://'' @ ''192.168.1.10'' @ ''/api/user'') = None"
    by (rule ex_url_ok)
  have url': "new_request_error ex_pairenv ((''https://'' @ ''192.168.1.10'') @ ''/api/user'') = None"
    by (rule ex_url_ok)
  have s5: "(500::int) \<noteq> 200" and s4: "(403::int) \<noteq> 200" by simp_all
  have tok: "pairLoop ex_pairenv (''https://'' @ ''192.168.1.10'') ''evcc'' 1
      [TickerC (Response 200 ''{token: abc123}'')]
    = (Some (Inr ''abc123''),
       [OnAttempt 2, HttpPost (tokenRequest (''https://'' @ ''192.168.1.10'') ''evcc'')])"
    using pairLoop_token [OF url' ex_token, of "''evcc''" 1 "[]"] by simp
  from C2_pending_retried_others_fatal [OF url s5, of "''evcc''" 0 "''oops''"
      "[TickerC (Response 200 ''{token: abc123}'')]" "[[], []]"]
  have a: "pairDeviceWithContext ex_pairenv ''192.168.1.10'' ''evcc''
         (map pending [[], []] @ TickerC (Response 500 ''oops'')
            # [TickerC (Response 200 ''{token: abc123}'')])
       = (Some (Inl (Fatal (HttpError 500 ''oops''))),
          NewTicker 5 # pollEvents (tokenRequest (''https://'' @ ''192.168.1.10'') ''evcc'') 0 3)"
    by (simp add: numeral_3_eq_3)
  from C2_pending_retried_others_fatal [OF url s4, of "''evcc''" 0 "[]"
      "[TickerC (Response 200 ''{token: abc123}'')]"] tok
  have b: "pairLoop ex_pairenv (''https://'' @ ''192.168.1.10'') ''evcc'' 0
         (TickerC (Response 403 []) # [TickerC (Response 200 ''{token: abc123}'')])
       = (Some (Inr ''abc123''),
          [OnAttempt 1, HttpPost (tokenRequest (''https://'' @ ''192.168.1.10'') ''evcc''),
           OnAttempt 2, HttpPost (tokenRequest (''https://'' @ ''192.168.1.10'') ''evcc'')])"
    by simp
  from url a b show ?thesis by simp
qed

lemma pairDeviceWithContext_eq:
  "pairDeviceWithContext env host name evs
     = (fst (pairLoop env (''https://'' @ host) name 0 evs),
        NewTicker 5 # snd (pairLoop env (''https://'' @ host) name 0 evs))"
  by (simp add: pairDeviceWithContext_def Let_def split_beta)

text \<open>
  \<^bold>\<open>C1\<close> (as amended). Every run of \<^verbatim>\<open>pairDeviceWithContext\<close> creates a ticker of 5
  seconds and makes one attempt per tick it receives; each attempt calls the progress
  callback with the 1-based attempt number before it sends the token request
  (\<open>callbacks_precede\<close>). A run that is answered 403 on the 35 attempts before the 36th
  and a token on the 36th returns the token, its last callback being that of attempt
  36. The function has no attempt budget: after any number of 403 answers it is still
  polling, and a token on the next tick is returned whatever that tick's number. It
  returns the timeout error when it receives the context's done signal, and only
  then.
\<close>

theorem C1_polling_loop:
  fixes host name :: string
  assumes "new_request_error env (''https://'' @ host @ ''/api/user'') = None"
  defines "req \<equiv> tokenRequest (''https://'' @ host) name"
  shows "(\<exists>tr. snd (pairDeviceWithContext env host name evs) = NewTicker 5 # tr
              \<and> callbacks_precede 0 tr)
       \<and> (length bodies = 35 \<and> decodeToken env body = Inr tok \<longrightarrow>
            pairDeviceWithContext env host name
                (map pending bodies @ TickerC (Response 200 body) # rest)
              = (Some (Inr tok), NewTicker 5 # pollEvents req 0 36))
       \<and> (decodeToken env body = Inr tok \<longrightarrow>
            pairDeviceWithContext env host name
                (map pending pre @ TickerC (Response 200 body) # rest)
              = (Some (Inr tok), NewTicker 5 # pollEvents req 0 (Suc (length pre))))
       \<and> pairDeviceWithContext env host name (map pending pre)
            = (None, NewTicker 5 # pollEvents req 0 (length pre))
       \<and> pairDeviceWithContext env host name (map pending pre @ CtxDone # rest)
            = (Some (Inl Timeout), NewTicker 5 # pollEvents req 0 (length pre))
       \<and> (fst (pairDeviceWithContext env host name evs) = Some (Inl Timeout) \<longrightarrow>
            CtxDone \<in> set evs)"
proof -
  have url: "new_request_error env ((''https://'' @ host) @ ''/api/user'') = None"
    using assms(1) by simp
  note pend = pairLoop_pendings [OF url, of name 0, folded req_def]
  have order: "\<exists>tr. snd (pairDeviceWithContext env host name evs) = NewTicker 5 # tr
      \<and> callbacks_precede 0 tr"
    using pairLoop_callbacks_precede [of 0 env "''https://'' @ host" name evs]
    by (simp add: pairDeviceWithContext_eq)
  have success: "pairDeviceWithContext env host name
        (map pending bs @ TickerC (Response 200 body) # rest)
      = (Some (Inr tok), NewTicker 5 # pollEvents req 0 (Suc (length bs)))"
    if "decodeToken env body = Inr tok" for bs
    using pend [of bs "TickerC (Response 200 body) # rest"]
      pairLoop_token [OF url that, of name "int (length bs)" rest, folded req_def]
    by (simp add: pairDeviceWithContext_eq pollEvents_Suc del: pairLoop.simps pollEvents.simps)
  have polling: "pairDeviceWithContext env host name (map pending pre)
      = (None, NewTicker 5 # pollEvents req 0 (length pre))"
    using pend [of pre "[]"] by (simp add: pairDeviceWithContext_eq)
  have cdone: "pairDeviceWithContext env host name (map pending pre @ CtxDone # rest)
      = (Some (Inl Timeout), NewTicker 5 # pollEvents req 0 (length pre))"
    using pend [of pre "CtxDone # rest"] pairLoop_done [of env "''https://'' @ host" name]
    by (simp add: pairDeviceWithContext_eq del: pairLoop.simps)
  have only: "fst (pairDeviceWithContext env host name evs) = Some (Inl Timeout) \<longrightarrow>
      CtxDone \<in> set evs"
    using pairLoop_timeout_only_done [of env "''https://'' @ host" name 0 evs]
    by (simp add: pairDeviceWithContext_eq)
  have s36: "Suc 35 = 36" by simp
  have thirtysix: "length bodies = 35 \<and> decodeToken env body = Inr tok \<longrightarrow>
      pairDeviceWithContext env host name
          (map pending bodies @ TickerC (Response 200 body) # rest)
        = (Some (Inr tok), NewTicker 5 # pollEvents req 0 36)"
    using success [of bodies] s36 by (simp del: pollEvents.simps)
  from order thirtysix success [of pre] polling cdone only show ?thesis
    by blast
qed


lemma run_token_after_pendings:
  assumes "new_request_error env (''https://'' @ host @ ''/api/user'') = None"
    and "decodeToken env body = Inr tok"
  shows "pairDeviceWithContext env host name
           (map pending bs @ TickerC (Response 200 body) # rest)
         = (Some (Inr tok),
            NewTicker 5 # pollEvents (tokenRequest (''https://'' @ host) name) 0 (Suc (length bs)))"
proof -
  have url: "new_request_error env ((''https://'' @ host) @ ''/api/user'') = None"
    using assms(1) by simp
  from pairLoop_pendings [OF url, of name 0 bs "TickerC (Response 200 body) # rest"]
    pairLoop_token [OF url assms(2), of name "int (length bs)" rest]
  show ?thesis
    by (simp add: pairDeviceWithContext_eq pollEvents_Suc del: pairLoop.simps pollEvents.simps)
qed

theorem C1_polling_loop_witness:
  "new_request_error ex_pairenv (''https://'' @ ''192.168.1.10'' @ ''/api/user'') = None
   \<and> length (replicate 35 ([] :: string)) = 35
   \<and> decodeToken ex_pairenv ''{token: abc123}'' = Inr ''abc123''
   \<and> pairDeviceWithContext ex_pairenv ''192.168.1.10'' ''evcc''
         (map pending (replicate 35 []) @ TickerC (Response 200 ''{token: abc123}'') # [])
       = (Some (Inr ''abc123''),
          NewTicker 5 # pollEvents (tokenRequest (''https://'' @ ''192.168.1.10'') ''evcc'') 0 36)
   \<and> OnAttempt 36 \<in> set (pollEvents (tokenRequest (''https://'' @ ''192.168.1.10'') ''evcc'') 0 36)
   \<and> pairDeviceWithContext ex_pairenv ''192.168.1.10'' ''evcc''
         (map pending (replicate 35 []) @ CtxDone # [])
       = (Some (Inl Timeout),
          NewTicker 5 # pollEvents (tokenRequest (''https://'' @ ''192.168.1.10'') ''evcc'') 0 35)"
proof -
  have url: "new_request_error ex_pairenv (''https://'' @ ''192.168.1.10'' @ ''/api/user'') = None"
    by (rule ex_url_ok)
  have len: "length (replicate 35 ([] :: string)) = 35" by simp
  note t = C1_polling_loop [OF url, of "''evcc''" _ "replicate 35 []" "''{token: abc123}''"
      "''abc123''" "[]" "replicate 35 []"]
  from t len ex_token have a: "pairDeviceWithContext ex_pairenv ''192.168.1.10'' ''evcc''
         (map pending (replicate 35 []) @ TickerC (Response 200 ''{token: abc123}'') # [])
       = (Some (Inr ''abc123''),
          NewTicker 5 # pollEvents (tokenRequest (''https://'' @ ''192.168.1.10'') ''evcc'') 0 36)"
    by blast
  from t len have b: "pairDeviceWithContext ex_pairenv ''192.168.1.10'' ''evcc''
         (map pending (replicate 35 []) @ CtxDone # [])
       = (Some (Inl Timeout),
          NewTicker 5 # pollEvents (tokenRequest (''https://'' @ ''192.168.1.10'') ''evcc'') 0 35)"
    by (simp del: pollEvents.simps)
  have c: "OnAttempt 36
      \<in> set (pollEvents (tokenRequest (''https://'' @ ''192.168.1.10'') ''evcc'') 0 36)"
    using pollEvents_last_callback [of 0 35] by (simp del: pollEvents.simps)
  from url len ex_token a b c show ?thesis by blast
qed

text \<open>
  The claim as stated bounds the attempts by 36 and makes a run that exceeds that
  budget time out. The loop counts its attempts but compares the count with nothing:
  on 36 ticks answered 403 and a 37th answered with a token, the run makes 37 requests,
  calls the callback with 37 and returns the token.
\<close>

theorem C1_attempt_budget_counterexample:
  "fst (pairDeviceWithContext ex_pairenv ''192.168.1.10'' ''evcc''
          (map pending (replicate 36 []) @ [TickerC (Response 200 ''{token: abc123}'')]))
     = Some (Inr ''abc123'')
   \<and> length (filter is_request
        (snd (pairDeviceWithContext ex_pairenv ''192.168.1.10'' ''evcc''
          (map pending (replicate 36 []) @ [TickerC (Response 200 ''{token: abc123}'')])))) = 37
   \<and> OnAttempt 37
        \<in> set (snd (pairDeviceWithContext ex_pairenv ''192.168.1.10'' ''evcc''
          (map pending (replicate 36 []) @ [TickerC (Response 200 ''{token: abc123}'')])))"
proof -
  have run: "pairDeviceWithContext ex_pairenv ''192.168.1.10'' ''evcc''
        (map pending (replicate 36 []) @ [TickerC (Response 200 ''{token: abc123}'')])
      = (Some (Inr ''abc123''),
         NewTicker 5 # pollEvents (tokenRequest (''https://'' @ ''192.168.1.10'') ''evcc'') 0 37)"
    using run_token_after_pendings [OF ex_url_ok ex_token, of "''192.168.1.10''" "''evcc''"
        "replicate 36 []" "[]"]
    by (simp del: pollEvents.simps)
  have cb: "OnAttempt 37
      \<in> set (pollEvents (tokenRequest (''https://'' @ ''192.168.1.10'') ''evcc'') 0 37)"
    using pollEvents_last_callback [of 0 36] by (simp del: pollEvents.simps)
  show ?thesis
    unfolding run using cb by (simp add: pollEvents_requests del: pollEvents.simps)
qed

theorem C3_name_rule_witness:
  "\<not> valid_name [] \<and> \<not> valid_name (replicate 41 CHR ''a'') \<and> \<not> valid_name ''evcc@home''
   \<and> \<not> namePattern_MatchString [] \<and> \<not> namePattern_MatchString (replicate 41 CHR ''a'')
   \<and> \<not> namePattern_MatchString ''evcc@home''
   \<and> PairSingleDevice ex_pairenv ''192.168.1.10'' []
        [TickerC (Response 200 ''{token: abc123}'')] = (Some (Some InvalidName), [])
   \<and> PairSingleDevice ex_pairenv ''192.168.1.10'' (replicate 41 CHR ''a'')
        [TickerC (Response 200 ''{token: abc123}'')] = (Some (Some InvalidName), [])
   \<and> DiscoverAndPairDevices ex_pairenv ''evcc@home'' 10 ex_devices [(0, CtxDone)]
        = (Some (Some InvalidName), [])
   \<and> valid_name ''evcc'' \<and> namePattern_MatchString ''evcc''
   \<and> valid_name [CHR ''a'', CHR 0x5C, CHR ''#'', CHR '' '', CHR ''Z'', CHR ''9'']
   \<and> fst (PairSingleDevice ex_pairenv ''192.168.1.10'' ''evcc''
        [TickerC (Response 200 ''{token: abc123}'')]) \<noteq> Some (Some InvalidName)
   \<and> fst (DiscoverAndPairDevices ex_pairenv ''evcc'' 10 ex_devices [(0, CtxDone)])
        \<noteq> Some (Some InvalidName)"
proof -
  have bad: "\<not> valid_name []" "\<not> valid_name (replicate 41 CHR ''a'')"
    "\<not> valid_name ''evcc@home''"
    by (rule ex_invalid_names)+
  have good: "valid_name ''evcc''"
    "valid_name [CHR ''a'', CHR 0x5C, CHR ''#'', CHR '' '', CHR ''Z'', CHR ''9'']"
    by (simp_all add: valid_name_def letters_def digits_def punctuation_def)
  note e = C3_name_rule [where name = "[]" and env = ex_pairenv and host = "''192.168.1.10''"
      and evs = "[TickerC (Response 200 ''{token: abc123}'')]"]
  note l = C3_name_rule [where name = "replicate 41 CHR ''a''" and env = ex_pairenv
      and host = "''192.168.1.10''" and evs = "[TickerC (Response 200 ''{token: abc123}'')]"]
  note a = C3_name_rule [where name = "''evcc@home''" and env = ex_pairenv and timeout = 10
      and discovered = ex_devices and sched = "[(0, CtxDone)]"]
  note g = C3_name_rule [where name = "''evcc''" and env = ex_pairenv
      and host = "''192.168.1.10''" and evs = "[TickerC (Response 200 ''{token: abc123}'')]"
      and timeout = 10 and discovered = ex_devices and sched = "[(0, CtxDone)]"]
  from bad good e l a g show ?thesis by blast
qed

end
